theory Spec2Isabelle
  imports Complex_Main "HOL-Library.AList"
begin

section \<open>JavaScript strings and the built-ins the parser calls\<close>

text \<open>
  A JavaScript string is a sequence of UTF-16 code units. The parser looks at code units
  only (\<open>trim\<close>, \<open>split\<close>, \<open>indexOf\<close>, \<open>parseInt\<close>), and \<open>decodeURIComponent\<close>
  can produce any code unit, so a string is a list of code units, each a natural number
  below 65536. \<open>js\<close> turns an ASCII literal into such a list.
\<close>

type_synonym jsstring = "nat list"

definition js :: "string \<Rightarrow> jsstring" where
  "js s = map of_char s"

text \<open>Code units the source names as literals.\<close>

definition TAB :: nat where "TAB = 9"
definition LF :: nat where "LF = 10"
definition CR :: nat where "CR = 13"
definition HASH :: nat where "HASH = 35"
definition PERCENT :: nat where "PERCENT = 37"
definition PLUS :: nat where "PLUS = 43"
definition MINUS :: nat where "MINUS = 45"
definition DOT :: nat where "DOT = 46"
definition SEMICOLON :: nat where "SEMICOLON = 59"
definition EQUALS :: nat where "EQUALS = 61"
definition QUESTION :: nat where "QUESTION = 63"

text \<open>
  \<open>String.prototype.trim\<close> and the prefix skipped by \<open>parseInt\<close> remove the code units of
  ECMAScript's WhiteSpace and LineTerminator productions: TAB, LF, VT, FF, CR, SP, NBSP,
  U+1680, U+2000 to U+200A, U+2028, U+2029, U+202F, U+205F, U+3000 and U+FEFF.
\<close>

definition isWhiteSpace :: "nat \<Rightarrow> bool" where
  "isWhiteSpace c \<longleftrightarrow>
     c = 9 \<or> c = 10 \<or> c = 11 \<or> c = 12 \<or> c = 13 \<or> c = 32 \<or> c = 160 \<or> c = 5760 \<or>
     (8192 \<le> c \<and> c \<le> 8202) \<or> c = 8232 \<or> c = 8233 \<or> c = 8239 \<or> c = 8287 \<or>
     c = 12288 \<or> c = 65279"

definition trimStart :: "jsstring \<Rightarrow> jsstring" where
  "trimStart s = dropWhile isWhiteSpace s"

definition trimEnd :: "jsstring \<Rightarrow> jsstring" where
  "trimEnd s = rev (dropWhile isWhiteSpace (rev s))"

definition trim :: "jsstring \<Rightarrow> jsstring" where
  "trim s = trimEnd (trimStart s)"

text \<open>
  \<open>s.split(sep)\<close> for a separator of one code unit: the pieces between the separators,
  one more piece than there are separators (the empty string splits into one empty piece).
\<close>

fun split_on :: "nat \<Rightarrow> jsstring \<Rightarrow> jsstring list" where
  "split_on sep [] = [[]]"
| "split_on sep (c # cs) =
     (if c = sep then [] # split_on sep cs
      else (case split_on sep cs of
              [] \<Rightarrow> [[c]]
            | piece # pieces \<Rightarrow> (c # piece) # pieces))"

text \<open>
  \<open>fileContent.split(/\r?\n/)\<close>: the regular expression matches CR LF where a CR is
  followed by LF, and a single LF otherwise; a CR alone is an ordinary code unit.
\<close>

fun split_lines :: "jsstring \<Rightarrow> jsstring list" where
  "split_lines [] = [[]]"
| "split_lines (c # cs) =
     (if c = LF then [] # split_lines cs
      else if c = CR \<and> cs \<noteq> [] \<and> hd cs = LF then [] # split_lines (tl cs)
      else (case split_lines cs of
              [] \<Rightarrow> [[c]]
            | piece # pieces \<Rightarrow> (c # piece) # pieces))"

text \<open>
  \<open>parseInt(s, 10)\<close>: skip leading white space, read an optional sign, then the longest
  run of decimal digits; \<open>NaN\<close> (here \<open>None\<close>) when that run is empty, and whatever follows
  the digits is ignored. The value is kept exact; JavaScript rounds it to a double, which
  changes nothing below \<open>2 ^ 53\<close>.
\<close>

definition isDigit :: "nat \<Rightarrow> bool" where
  "isDigit c \<longleftrightarrow> 48 \<le> c \<and> c \<le> 57"

definition digitsValue :: "jsstring \<Rightarrow> nat" where
  "digitsValue ds = foldl (\<lambda>acc d. 10 * acc + (d - 48)) 0 ds"

definition parseInt :: "jsstring \<Rightarrow> int option" where
  "parseInt s =
     (let S = trimStart s;
          negative = (S \<noteq> [] \<and> hd S = MINUS);
          S' = (if S \<noteq> [] \<and> (hd S = PLUS \<or> hd S = MINUS) then tl S else S);
          Z = takeWhile isDigit S'
      in if Z = [] then None
         else Some ((if negative then - 1 else 1) * int (digitsValue Z)))"

subsection \<open>decodeURIComponent\<close>

text \<open>
  ECMAScript's \<open>Decode\<close> with an empty set of preserved escapes. A code unit other than
  \<open>%\<close> is copied. A \<open>%\<close> must be followed by two hexadecimal digits giving an octet
  \<open>B\<close>; an octet below 128 is the code unit itself; otherwise \<open>B\<close> starts a UTF-8
  sequence of 2 to 4 octets, each further octet escaped in the same way, and the sequence
  must be a valid UTF-8 encoding of a code point, which is appended in UTF-16. Every
  failure throws \<open>URIError\<close>, here \<open>None\<close>.
\<close>

definition hexValue :: "nat \<Rightarrow> nat option" where
  "hexValue c =
     (if 48 \<le> c \<and> c \<le> 57 then Some (c - 48)
      else if 65 \<le> c \<and> c \<le> 70 then Some (c - 55)
      else if 97 \<le> c \<and> c \<le> 102 then Some (c - 87)
      else None)"

definition parseHexOctet :: "nat \<Rightarrow> nat \<Rightarrow> nat option" where
  "parseHexOctet h l =
     (case hexValue h of
        None \<Rightarrow> None
      | Some a \<Rightarrow> (case hexValue l of None \<Rightarrow> None | Some b \<Rightarrow> Some (16 * a + b)))"

definition leadingOnes :: "nat \<Rightarrow> nat" where
  "leadingOnes B =
     (if B < 128 then 0 else if B < 192 then 1 else if B < 224 then 2
      else if B < 240 then 3 else if B < 248 then 4 else 5)"

text \<open>The next \<open>n\<close> escaped octets, with the rest of the string.\<close>

fun escapedOctets :: "nat \<Rightarrow> jsstring \<Rightarrow> (nat list \<times> jsstring) option" where
  "escapedOctets 0 s = Some ([], s)"
| "escapedOctets (Suc n) (p # h # l # s) =
     (if p \<noteq> PERCENT then None
      else (case parseHexOctet h l of
              None \<Rightarrow> None
            | Some B \<Rightarrow>
                (case escapedOctets n s of
                   None \<Rightarrow> None
                 | Some (octets, s') \<Rightarrow> Some (B # octets, s'))))"
| "escapedOctets (Suc n) s = None"

text \<open>
  The code point of a UTF-8 sequence of 2 to 4 octets: continuation octets are
  \<open>10xxxxxx\<close>, the shortest encoding is required, and surrogates and values above
  U+10FFFF are refused.
\<close>

definition utf8CodePoint :: "nat list \<Rightarrow> nat option" where
  "utf8CodePoint octets =
     (let n = length octets;
          conts = tl octets;
          lead = hd octets - (if n = 2 then 192 else if n = 3 then 224 else 240);
          V = foldl (\<lambda>acc B. 64 * acc + (B - 128)) lead conts;
          least = (if n = 2 then 128 else if n = 3 then 2048 else 65536)
      in if (\<forall>B \<in> set conts. 128 \<le> B \<and> B < 192) \<and> least \<le> V \<and> V \<le> 1114111 \<and>
            \<not> (55296 \<le> V \<and> V \<le> 57343)
         then Some V else None)"

definition utf16Encode :: "nat \<Rightarrow> jsstring" where
  "utf16Encode V =
     (if V < 65536 then [V]
      else [55296 + (V - 65536) div 1024, 56320 + (V - 65536) mod 1024])"

lemma escapedOctets_length:
  "escapedOctets n s = Some (octets, s') \<Longrightarrow> length s' \<le> length s"
proof (induction n s arbitrary: octets s' rule: escapedOctets.induct)
  case (1 s)
  then show ?case by simp
next
  case (2 n p h l s)
  then show ?case
    by (auto split: if_splits option.splits prod.splits) fastforce
qed simp_all

function decodeURIComponent :: "jsstring \<Rightarrow> jsstring option" where
  "decodeURIComponent [] = Some []"
| "decodeURIComponent (c # s) =
     (if c \<noteq> PERCENT then map_option ((#) c) (decodeURIComponent s)
      else (case s of
              h # l # s1 \<Rightarrow>
                (case parseHexOctet h l of
                   None \<Rightarrow> None
                 | Some B \<Rightarrow>
                     (let n = leadingOnes B in
                      if n = 0 then map_option ((#) B) (decodeURIComponent s1)
                      else if n = 1 \<or> n > 4 then None
                      else (case escapedOctets (n - 1) s1 of
                              None \<Rightarrow> None
                            | Some (octets, s2) \<Rightarrow>
                                (case utf8CodePoint (B # octets) of
                                   None \<Rightarrow> None
                                 | Some V \<Rightarrow>
                                     map_option ((@) (utf16Encode V))
                                       (decodeURIComponent s2)))))
            | _ \<Rightarrow> None))"
  by pat_completeness auto
termination
  by (relation "measure length") (auto dest: escapedOctets_length)

section \<open>The line parser and the attribute parser\<close>

text \<open>
  A Feature object as \<open>parseGFF3Line\<close> builds it. The object's \<open>children\<close> array and
  \<open>parent\<close> reference start empty and are written by the hierarchy builder only; they
  live in the hierarchy's store below. \<open>score\<close> keeps the token that \<open>parseFloat\<close> is
  applied to (\<open>None\<close> for the literal \<open>.\<close>), \<open>phase\<close> the result of \<open>parseInt\<close>
  (\<open>Some None\<close> is \<open>NaN\<close>). \<open>attributes\<close> is the object's own properties in insertion
  order.
\<close>

record feature =
  seqid :: jsstring
  source :: jsstring
  ftype :: jsstring
  start :: int
  end_pos :: int
  score :: "jsstring option"
  strand :: jsstring
  phase :: "int option option"
  attributes :: "(jsstring \<times> jsstring) list"
  lineNumber :: nat

text \<open>
  The errors thrown while one line is parsed, each with what its message carries. The
  first four are the \<open>Error\<close>s of \<open>parseGFF3Line\<close>; \<open>URIError\<close> is thrown by
  \<open>decodeURIComponent\<close> inside \<open>parseAttributes\<close> and is not caught there.
\<close>

datatype line_error =
    ColumnCountError nat nat
  | CoordinateTypeError nat
  | CoordinateOrderError nat int int
  | StrandError nat jsstring
  | URIError

text \<open>
  \<open>attributes[key] = v\<close> on a plain object: an own property is created or overwritten
  in place, except for the key \<open>__proto__\<close>, whose inherited setter ignores a string.
  The list is in the order of creation; JavaScript enumerates keys that are array
  indices before the others, an order nothing here reads.
\<close>

definition assign :: "jsstring \<Rightarrow> jsstring \<Rightarrow> (jsstring \<times> jsstring) list \<Rightarrow> (jsstring \<times> jsstring) list" where
  "assign key v obj = (if key = js ''__proto__'' then obj else AList.update key v obj)"

fun parseAttributes_pairs ::
  "jsstring list \<Rightarrow> (jsstring \<times> jsstring) list \<Rightarrow> line_error + (jsstring \<times> jsstring) list" where
  "parseAttributes_pairs [] attrs = Inr attrs"
| "parseAttributes_pairs (pair # pairs) attrs =
     (let trimmedPair = trim pair in
      if trimmedPair = [] then parseAttributes_pairs pairs attrs
      else if EQUALS \<notin> set trimmedPair then parseAttributes_pairs pairs attrs
      else
        (let key = trim (takeWhile (\<lambda>c. c \<noteq> EQUALS) trimmedPair);
             v = trim (tl (dropWhile (\<lambda>c. c \<noteq> EQUALS) trimmedPair))
         in case decodeURIComponent v of
              None \<Rightarrow> Inl URIError
            | Some decoded \<Rightarrow> parseAttributes_pairs pairs (assign key decoded attrs)))"

definition parseAttributes :: "jsstring \<Rightarrow> line_error + (jsstring \<times> jsstring) list" where
  "parseAttributes attributeString =
     (if attributeString = [] \<or> attributeString = [DOT] then Inr []
      else parseAttributes_pairs (split_on SEMICOLON attributeString) [])"

definition validStrand :: "jsstring \<Rightarrow> bool" where
  "validStrand s \<longleftrightarrow> s = [PLUS] \<or> s = [MINUS] \<or> s = [DOT] \<or> s = [QUESTION]"

definition parseGFF3Line :: "jsstring \<Rightarrow> nat \<Rightarrow> line_error + feature option" where
  "parseGFF3Line line n =
     (let trimmed = trim line in
      if trimmed = [] \<or> hd trimmed = HASH then Inr None
      else
        (let columns = split_on TAB trimmed in
         if length columns \<noteq> 9 then Inl (ColumnCountError n (length columns))
         else
           (case parseInt (columns ! 3) of
              None \<Rightarrow> Inl (CoordinateTypeError n)
            | Some startPos \<Rightarrow>
                (case parseInt (columns ! 4) of
                   None \<Rightarrow> Inl (CoordinateTypeError n)
                 | Some endPos \<Rightarrow>
                     if startPos > endPos then Inl (CoordinateOrderError n startPos endPos)
                     else if \<not> validStrand (columns ! 6) then Inl (StrandError n (columns ! 6))
                     else
                       (case parseAttributes (columns ! 8) of
                          Inl e \<Rightarrow> Inl e
                        | Inr attrs \<Rightarrow>
                            Inr (Some \<lparr> seqid = columns ! 0, source = columns ! 1,
                                        ftype = columns ! 2, start = startPos, end_pos = endPos,
                                        score = (if columns ! 5 = [DOT] then None
                                                 else Some (columns ! 5)),
                                        strand = columns ! 6,
                                        phase = (if columns ! 7 = [DOT] then None
                                                 else Some (parseInt (columns ! 7))),
                                        attributes = attrs, lineNumber = n \<rparr>))))))"

text \<open>Building test lines: the columns joined by TAB.\<close>

fun join_tabs :: "jsstring list \<Rightarrow> jsstring" where
  "join_tabs [] = []"
| "join_tabs [c] = c"
| "join_tabs (c # cs) = c @ TAB # join_tabs cs"

section \<open>The hierarchy builder\<close>

text \<open>
  Feature objects are shared and mutated: \<open>buildHierarchy\<close> writes \<open>feature.parent\<close> and
  pushes onto \<open>parent.children\<close>, and nothing stops the references from forming a cycle.
  So an object is referred to by its position in the \<open>features\<close> array, and the two
  mutable properties are a store from positions: \<open>parent\<close> (\<open>None\<close> is \<open>null\<close>) and
  \<open>children\<close>. \<open>featureById\<close> is the \<open>Map\<close> with its entries in insertion order.
  \<open>console.warn\<close> is the list \<open>warnings\<close>: each warning carries the feature's line
  number, the missing parent id and the feature's \<open>ID\<close> or the literal \<open>unnamed\<close>.
\<close>

record hierarchy =
  featureById :: "(jsstring \<times> nat) list"
  rootFeatures :: "nat list"
  parent :: "nat \<Rightarrow> nat option"
  children :: "nat \<Rightarrow> nat list"
  warnings :: "(nat \<times> jsstring \<times> jsstring) list"

text \<open>
  The property \<open>key\<close> of an attributes object where the source tests it for truthiness:
  \<open>undefined\<close> and the empty string are falsy.
\<close>

definition truthy_attribute :: "feature \<Rightarrow> jsstring \<Rightarrow> jsstring option" where
  "truthy_attribute f key =
     (case map_of (attributes f) key of
        None \<Rightarrow> None
      | Some v \<Rightarrow> if v = [] then None else Some v)"

text \<open>First pass: index every feature that has an \<open>ID\<close>; a later duplicate overwrites.\<close>

fun index_features :: "feature list \<Rightarrow> nat \<Rightarrow> (jsstring \<times> nat) list \<Rightarrow> (jsstring \<times> nat) list" where
  "index_features [] i byId = byId"
| "index_features (f # fs) i byId =
     (case truthy_attribute f (js ''ID'') of
        Some ident \<Rightarrow> index_features fs (Suc i) (AList.update ident i byId)
      | None \<Rightarrow> index_features fs (Suc i) byId)"

text \<open>Second pass: link each feature to its parent, or make it a root.\<close>

fun link_features :: "feature list \<Rightarrow> nat \<Rightarrow> hierarchy \<Rightarrow> hierarchy" where
  "link_features [] i h = h"
| "link_features (f # fs) i h =
     (case truthy_attribute f (js ''Parent'') of
        Some parentId \<Rightarrow>
          (case map_of (featureById h) parentId of
             Some p \<Rightarrow>
               link_features fs (Suc i)
                 (h\<lparr> parent := (parent h)(i \<mapsto> p),
                     children := (children h)(p := children h p @ [i]) \<rparr>)
           | None \<Rightarrow>
               link_features fs (Suc i)
                 (h\<lparr> warnings := warnings h @
                        [(lineNumber f, parentId,
                          (case truthy_attribute f (js ''ID'') of
                             Some ident \<Rightarrow> ident
                           | None \<Rightarrow> js ''unnamed''))],
                     rootFeatures := rootFeatures h @ [i] \<rparr>))
      | None \<Rightarrow> link_features fs (Suc i) (h\<lparr> rootFeatures := rootFeatures h @ [i] \<rparr>))"

definition buildHierarchy :: "feature list \<Rightarrow> hierarchy" where
  "buildHierarchy features =
     link_features features 0
       \<lparr> featureById = index_features features 0 [], rootFeatures = [],
         parent = (\<lambda>i. None), children = (\<lambda>i. []), warnings = [] \<rparr>"

section \<open>The file parser\<close>

record error_entry =
  err_lineNumber :: nat
  err_message :: line_error
  err_line :: jsstring

text \<open>
  What \<open>parseGFF3\<close> throws: the guard's error for an empty buffer, and the aggregate
  error, whose message gives the number of errors, the first five entries and, when there
  are more than five, the number of the others.
\<close>

datatype parse_error =
    InvalidInputError
  | MalformedFileError nat "error_entry list" "nat option"

text \<open>
  The object \<open>parseGFF3\<close> returns. Its \<open>rootFeatures\<close> and \<open>featureById\<close> are those of
  \<open>hier\<close>, which also carries the store the Feature objects' \<open>parent\<close> and \<open>children\<close>
  are read from and what was written to the console. \<open>stats\<close> is the number of
  features, of root features and of errors.
\<close>

record parse_result =
  features :: "feature list"
  hier :: hierarchy
  extent :: "int \<times> int"
  sequences :: "jsstring list"
  featureTypes :: "jsstring list"
  stats :: "nat \<times> nat \<times> nat"
  errors :: "error_entry list"

text \<open>The loop over the lines; \<open>i\<close> is the loop index, the line number is \<open>i + 1\<close>.\<close>

fun parse_lines ::
  "jsstring list \<Rightarrow> nat \<Rightarrow> feature list \<Rightarrow> error_entry list \<Rightarrow> feature list \<times> error_entry list" where
  "parse_lines [] i fs es = (fs, es)"
| "parse_lines (l # ls) i fs es =
     (case parseGFF3Line l (i + 1) of
        Inr (Some f) \<Rightarrow> parse_lines ls (Suc i) (fs @ [f]) es
      | Inr None \<Rightarrow> parse_lines ls (Suc i) fs es
      | Inl e \<Rightarrow>
          parse_lines ls (Suc i) fs
            (es @ [\<lparr> err_lineNumber = i + 1, err_message = e, err_line = take 100 l \<rparr>]))"

text \<open>
  \<open>errors.length > 0 && errors.length / lines.length > 0.1\<close>. The quotient and the
  constant are taken exactly; for the line counts a string can have, the comparison of
  the doubles gives the same answer.
\<close>

definition too_many_errors :: "nat \<Rightarrow> nat \<Rightarrow> bool" where
  "too_many_errors n_errors n_lines \<longleftrightarrow>
     n_errors > 0 \<and> (of_nat n_errors / of_nat n_lines :: rat) > 1 / 10"

text \<open>A \<open>Set\<close> turned into an array: the distinct values in the order they were first added.\<close>

definition distinct_in_order :: "'a list \<Rightarrow> 'a list" where
  "distinct_in_order xs = foldl (\<lambda>acc x. if x \<in> set acc then acc else acc @ [x]) [] xs"

text \<open>
  The extent loop starts from \<open>Infinity\<close> and \<open>-Infinity\<close> (here \<open>None\<close>), replaced by 0
  when no feature was seen.
\<close>

definition compute_extent :: "feature list \<Rightarrow> int \<times> int" where
  "compute_extent fs =
     (let minStart = foldl (\<lambda>m f. Some (case m of None \<Rightarrow> start f | Some a \<Rightarrow> min a (start f))) None fs;
          maxEnd = foldl (\<lambda>m f. Some (case m of None \<Rightarrow> end_pos f | Some a \<Rightarrow> max a (end_pos f))) None fs
      in (case minStart of None \<Rightarrow> 0 | Some a \<Rightarrow> a, case maxEnd of None \<Rightarrow> 0 | Some a \<Rightarrow> a))"

definition parseGFF3 :: "jsstring \<Rightarrow> parse_error + parse_result" where
  "parseGFF3 fileContent =
     (if fileContent = [] then Inl InvalidInputError
      else
        (let lines = split_lines fileContent;
             (fs, es) = parse_lines lines 0 [] []
         in if too_many_errors (length es) (length lines)
            then Inl (MalformedFileError (length es) (take 5 es)
                        (if length es > 5 then Some (length es - 5) else None))
            else
              (let hierarchy = buildHierarchy fs
               in Inr \<lparr> features = fs, hier = hierarchy, extent = compute_extent fs,
                        sequences = distinct_in_order (map seqid fs),
                        featureTypes = distinct_in_order (map ftype fs),
                        stats = (length fs, length (rootFeatures hierarchy), length es),
                        errors = es \<rparr>)))"

text \<open>Building test files: the lines joined by LF.\<close>

fun join_lines :: "jsstring list \<Rightarrow> jsstring" where
  "join_lines [] = []"
| "join_lines [l] = l"
| "join_lines (l # ls) = l @ LF # join_lines ls"

section \<open>The track layout engine\<close>

text \<open>
  Layout and rendering start from \<open>data.rootFeatures\<close> and only read the objects. A root
  has no parent, and every other object is pushed onto the \<open>children\<close> of one parent
  once, so what a root reaches through \<open>children\<close> is a finite tree: a Feature object
  together with its \<open>children\<close> array is a node.
\<close>

datatype feature_node = Node (feat: feature) (kids: "feature_node list")

text \<open>\<open>track.some(f => !(f.end < feature.start || f.start > feature.end))\<close>\<close>

definition hasOverlap :: "feature_node list \<Rightarrow> feature_node \<Rightarrow> bool" where
  "hasOverlap track feature =
     list_ex (\<lambda>f. \<not> (end_pos (feat f) < start (feat feature) \<or>
                      start (feat f) > end_pos (feat feature))) track"

text \<open>The inner loop of \<open>organizeIntoTracks\<close>: the first track that takes the feature.\<close>

fun place :: "feature_node \<Rightarrow> feature_node list list \<Rightarrow> feature_node list list" where
  "place feature [] = [[feature]]"
| "place feature (track # tracks) =
     (if \<not> hasOverlap track feature then (track @ [feature]) # tracks
      else track # place feature tracks)"

definition organizeIntoTracks :: "feature_node list \<Rightarrow> feature_node list list" where
  "organizeIntoTracks roots = foldl (\<lambda>tracks feature. place feature tracks) [] roots"

section \<open>The redraw\<close>

text \<open>
  The numbers of a redraw are doubles. A double is the rational it stands for, and two
  doubles compare as these rationals do, but a sum, a difference or a product is rounded.
  The rounded operations the redraw and the zoom handler use are taken as they are:
  \<open>fl_add a b\<close> is the double \<open>a + b\<close>, \<open>fl_sub a b\<close> the double \<open>a - b\<close> and
  \<open>fl_times_tenth a\<close> the double \<open>a * 0.1\<close>. Nothing is assumed of them.
\<close>

record float_ops =
  fl_add :: "rat \<Rightarrow> rat \<Rightarrow> rat"
  fl_sub :: "rat \<Rightarrow> rat \<Rightarrow> rat"
  fl_times_tenth :: "rat \<Rightarrow> rat"

text \<open>
  A redraw is given the current scale, a d3 linear scale: \<open>scale(x)\<close> maps a coordinate to
  a pixel position and \<open>scale.invert\<close> maps back. Both are kept as they are handed in,
  with the doubles they return; \<open>width\<close> is the width of the drawing area.
\<close>

record scale =
  scale_px :: "int \<Rightarrow> rat"
  scale_invert :: "rat \<Rightarrow> rat"

text \<open>
  A draw primitive is what is appended to the track's group: the arrow of a gene, the
  line of an intron between two exons, the block of an exon or of a CDS, each with the
  Feature it is drawn for. Geometry and styling are left out.
\<close>

datatype primitive =
    GenePath feature
  | IntronLine feature feature
  | ExonRect feature
  | CDSRect feature

definition maxFeaturesToRender :: nat where
  "maxFeaturesToRender = 5000"

text \<open>The introns of \<open>renderMRNA\<close>: one line between consecutive exons, if in view.\<close>

fun intron_lines :: "rat \<Rightarrow> rat \<Rightarrow> feature_node list \<Rightarrow> primitive list" where
  "intron_lines viewStart viewEnd (exon1 # exon2 # exons) =
     (if of_int (start (feat exon2)) < viewStart \<or> of_int (end_pos (feat exon1)) > viewEnd
      then intron_lines viewStart viewEnd (exon2 # exons)
      else IntronLine (feat exon1) (feat exon2) # intron_lines viewStart viewEnd (exon2 # exons))"
| "intron_lines viewStart viewEnd exons = []"

text \<open>The blocks of \<open>renderMRNA\<close>, for the exons and for the CDSs.\<close>

definition blocks ::
  "float_ops \<Rightarrow> scale \<Rightarrow> rat \<Rightarrow> rat \<Rightarrow> (feature \<Rightarrow> primitive) \<Rightarrow> feature_node list \<Rightarrow> primitive list" where
  "blocks fl sc viewStart viewEnd rect cs =
     map (\<lambda>c. rect (feat c))
       (filter (\<lambda>c. \<not> (of_int (end_pos (feat c)) < viewStart \<or> of_int (start (feat c)) > viewEnd) \<and>
                    \<not> (fl_sub fl (scale_px sc (end_pos (feat c))) (scale_px sc (start (feat c))) < 1 / 2))
          cs)"

definition renderMRNA :: "float_ops \<Rightarrow> scale \<Rightarrow> rat \<Rightarrow> feature_node \<Rightarrow> primitive list" where
  "renderMRNA fl sc width feature =
     (let viewStart = scale_invert sc 0;
          viewEnd = scale_invert sc width;
          exons = filter (\<lambda>c. ftype (feat c) = js ''exon'') (kids feature);
          cdss = filter (\<lambda>c. ftype (feat c) = js ''CDS'') (kids feature);
          sorted = sort_key (\<lambda>c. start (feat c)) exons
      in intron_lines viewStart viewEnd sorted @
         blocks fl sc viewStart viewEnd ExonRect sorted @
         blocks fl sc viewStart viewEnd CDSRect cdss)"

definition renderExon :: "feature \<Rightarrow> primitive list" where
  "renderExon f = [ExonRect f]"

definition renderCDS :: "feature \<Rightarrow> primitive list" where
  "renderCDS f = [CDSRect f]"

fun renderFeature :: "float_ops \<Rightarrow> scale \<Rightarrow> rat \<Rightarrow> feature_node \<Rightarrow> primitive list"
  and renderGene :: "float_ops \<Rightarrow> scale \<Rightarrow> rat \<Rightarrow> feature_node \<Rightarrow> primitive list" where
  "renderFeature fl sc width (Node f cs) =
     (if fl_sub fl (scale_px sc (end_pos f)) (scale_px sc (start f)) < 1 then []
      else if ftype f = js ''gene'' then renderGene fl sc width (Node f cs)
      else if ftype f = js ''mRNA'' then renderMRNA fl sc width (Node f cs)
      else if ftype f = js ''exon'' then renderExon f
      else if ftype f = js ''CDS'' then renderCDS f
      else [])"
| "renderGene fl sc width (Node f cs) =
     GenePath f # concat (map (renderFeature fl sc width) cs)"

text \<open>
  The test of \<open>updateFeatures\<close> on a root: entirely outside the window
  \<open>[viewStart, viewEnd]\<close> widened by a tenth of its width on each side, the padding
  and the two widened bounds computed in doubles as the source computes them.
\<close>

definition outside_padded_viewport :: "float_ops \<Rightarrow> scale \<Rightarrow> rat \<Rightarrow> feature \<Rightarrow> bool" where
  "outside_padded_viewport fl sc width f =
     (let viewStart = scale_invert sc 0;
          viewEnd = scale_invert sc width;
          viewportPadding = fl_times_tenth fl (fl_sub fl viewEnd viewStart)
      in of_int (end_pos f) < fl_sub fl viewStart viewportPadding \<or>
         of_int (start f) > fl_add fl viewEnd viewportPadding)"

text \<open>
  The two nested \<open>forEach\<close> loops of \<open>updateFeatures\<close>, threading \<open>renderedCount\<close> and
  the primitives drawn so far.
\<close>

fun render_track ::
  "float_ops \<Rightarrow> scale \<Rightarrow> rat \<Rightarrow> feature_node list \<Rightarrow> nat \<times> primitive list \<Rightarrow> nat \<times> primitive list" where
  "render_track fl sc width [] st = st"
| "render_track fl sc width (feature # rest) (renderedCount, drawn) =
     (if renderedCount \<ge> maxFeaturesToRender
      then render_track fl sc width rest (renderedCount, drawn)
      else if outside_padded_viewport fl sc width (feat feature)
      then render_track fl sc width rest (renderedCount, drawn)
      else render_track fl sc width rest
             (renderedCount + 1, drawn @ renderFeature fl sc width feature))"

fun render_tracks ::
  "float_ops \<Rightarrow> scale \<Rightarrow> rat \<Rightarrow> feature_node list list \<Rightarrow> nat \<times> primitive list \<Rightarrow> nat \<times> primitive list" where
  "render_tracks fl sc width [] st = st"
| "render_tracks fl sc width (track # tracks) (renderedCount, drawn) =
     (if renderedCount \<ge> maxFeaturesToRender
      then render_tracks fl sc width tracks (renderedCount, drawn)
      else render_tracks fl sc width tracks (render_track fl sc width track (renderedCount, drawn)))"

definition updateFeatures :: "float_ops \<Rightarrow> scale \<Rightarrow> rat \<Rightarrow> feature_node list list \<Rightarrow> nat \<times> primitive list" where
  "updateFeatures fl sc width tracks = render_tracks fl sc width tracks (0, [])"

section \<open>The zoom handler\<close>













section \<open>Example inputs\<close>

text \<open>A record line from its nine columns, with the attribute column last.\<close>

definition gene_line :: "string \<Rightarrow> string \<Rightarrow> string \<Rightarrow> jsstring" where
  "gene_line start_token end_token attrs =
     join_tabs [js ''chr1'', js ''RefSeq'', js ''gene'', js start_token, js end_token,
                js ''.'', js ''+'', js ''.'', js attrs]"

text \<open>A line whose coordinates are a fraction and a number followed by letters.\<close>

definition fractional_line :: jsstring where
  "fractional_line = gene_line ''3.7'' ''12abc'' ''ID=g1''"

text \<open>A line with an invalid percent escape, the same line without it, and a line with
  an attribute segment that has no equals sign.\<close>

definition percent_line :: jsstring where
  "percent_line = gene_line ''1'' ''10'' ''ID=g1;Name=%ZZ''"

definition plain_line :: jsstring where
  "plain_line = gene_line ''1'' ''10'' ''ID=g1;Name=ZZ''"

definition no_equals_line :: jsstring where
  "no_equals_line = gene_line ''1'' ''10'' ''ID=g1;Name''"

text \<open>Nine comment lines and the line with the invalid escape: one failed line in ten.\<close>

definition percent_file :: jsstring where
  "percent_file =
     join_lines [[HASH], [HASH], [HASH], [HASH], [HASH], [HASH], [HASH], [HASH], [HASH],
                 percent_line]"

section \<open>Notions used in the statements\<close>

text \<open>
  The position the \<open>Parent\<close> attribute of a feature resolves to in an index: \<open>None\<close>
  when the attribute is absent or empty, or names no indexed \<open>ID\<close>.
\<close>

definition resolved_parent :: "(jsstring \<times> nat) list \<Rightarrow> feature \<Rightarrow> nat option" where
  "resolved_parent byId f =
     (case truthy_attribute f (js ''Parent'') of
        None \<Rightarrow> None
      | Some parentId \<Rightarrow> map_of byId parentId)"

text \<open>A feature whose \<open>Parent\<close> attribute names an \<open>ID\<close> that is not indexed.\<close>

definition unresolved_parent :: "(jsstring \<times> nat) list \<Rightarrow> feature \<Rightarrow> bool" where
  "unresolved_parent byId f \<longleftrightarrow>
     (case truthy_attribute f (js ''Parent'') of
        None \<Rightarrow> False
      | Some parentId \<Rightarrow> map_of byId parentId = None)"

text \<open>The warning \<open>buildHierarchy\<close> logs for such a feature.\<close>

definition parent_warning :: "feature \<Rightarrow> nat \<times> jsstring \<times> jsstring" where
  "parent_warning f =
     (lineNumber f,
      (case truthy_attribute f (js ''Parent'') of Some parentId \<Rightarrow> parentId | None \<Rightarrow> []),
      (case truthy_attribute f (js ''ID'') of Some ident \<Rightarrow> ident | None \<Rightarrow> js ''unnamed''))"

text \<open>
  The traversal from \<open>rootFeatures\<close> reaches the root features and, from a feature it
  reaches, the features in its \<open>children\<close>.
\<close>

inductive reachable_from_roots :: "hierarchy \<Rightarrow> nat \<Rightarrow> bool"
  for h :: hierarchy where
  root: "i \<in> set (rootFeatures h) \<Longrightarrow> reachable_from_roots h i"
| child: "reachable_from_roots h p \<Longrightarrow> i \<in> set (children h p) \<Longrightarrow> reachable_from_roots h i"

code_pred reachable_from_roots .

text \<open>
  Following \<open>parent\<close> from a feature, at most \<open>n\<close> times, comes to a feature without a
  parent.
\<close>

fun parent_chain_ends :: "hierarchy \<Rightarrow> nat \<Rightarrow> nat \<Rightarrow> bool" where
  "parent_chain_ends h 0 i = (parent h i = None)"
| "parent_chain_ends h (Suc n) i =
     (case parent h i of None \<Rightarrow> True | Some p \<Rightarrow> parent_chain_ends h n p)"

text \<open>Features whose \<open>Parent\<close> attributes form a cycle: one naming itself, two naming
  each other.\<close>

definition linked_feature :: "string \<Rightarrow> string \<Rightarrow> nat \<Rightarrow> feature" where
  "linked_feature ident parentId n =
     \<lparr> seqid = js ''chr1'', source = js ''RefSeq'', ftype = js ''gene'', start = 1,
       end_pos = 10, score = None, strand = [PLUS], phase = None,
       attributes = [(js ''ID'', js ident), (js ''Parent'', js parentId)], lineNumber = n \<rparr>"

definition self_cycle :: "feature list" where
  "self_cycle = [linked_feature ''a'' ''a'' 1]"

definition two_cycle :: "feature list" where
  "two_cycle = [linked_feature ''a'' ''b'' 1, linked_feature ''b'' ''a'' 2]"

text \<open>The file of one line that parses to the feature naming itself as parent.\<close>

definition cycle_file :: jsstring where
  "cycle_file = gene_line ''1'' ''10'' ''ID=a;Parent=a''"

text \<open>A feature without a \<open>Parent\<close>, and a chain of three features below one another.\<close>

definition root_feature :: "string \<Rightarrow> nat \<Rightarrow> feature" where
  "root_feature ident n =
     \<lparr> seqid = js ''chr1'', source = js ''RefSeq'', ftype = js ''gene'', start = 1,
       end_pos = 10, score = None, strand = [PLUS], phase = None,
       attributes = [(js ''ID'', js ident)], lineNumber = n \<rparr>"

definition family :: "feature list" where
  "family = [root_feature ''g'' 1, linked_feature ''m'' ''g'' 2, linked_feature ''e'' ''m'' 3]"

text \<open>
  The lines of a file that yield a Feature, and the entries for the lines on which the
  line parser fails, taken line by line with line numbers from 1.
\<close>

definition line_features :: "nat \<Rightarrow> jsstring list \<Rightarrow> feature list" where
  "line_features i ls =
     List.map_filter
       (\<lambda>p. case parseGFF3Line (snd p) (fst p) of Inr (Some f) \<Rightarrow> Some f | _ \<Rightarrow> None)
       (enumerate (Suc i) ls)"

definition line_failures :: "nat \<Rightarrow> jsstring list \<Rightarrow> error_entry list" where
  "line_failures i ls =
     List.map_filter
       (\<lambda>p. case parseGFF3Line (snd p) (fst p) of
              Inl e \<Rightarrow> Some \<lparr> err_lineNumber = fst p, err_message = e,
                               err_line = take 100 (snd p) \<rparr>
            | Inr _ \<Rightarrow> None)
       (enumerate (Suc i) ls)"

text \<open>The fraction of failed lines of a file exceeds 10%.\<close>

definition failed_fraction_exceeds_tenth :: "jsstring \<Rightarrow> bool" where
  "failed_fraction_exceeds_tenth content \<longleftrightarrow>
     (of_nat (length (line_failures 0 (split_lines content))) /
      of_nat (length (split_lines content)) :: rat) > 1 / 10"

text \<open>A file with one feature whose \<open>Parent\<close> names an \<open>ID\<close> that no feature has.\<close>

definition orphan_file :: jsstring where
  "orphan_file =
     join_tabs [js ''chr1'', js ''RefSeq'', js ''mRNA'', js ''1'', js ''10'', js ''.'',
                js ''+'', js ''.'', js ''ID=m1;Parent=missingID'']"

text \<open>A file of one line with eight columns.\<close>

definition short_file :: jsstring where
  "short_file =
     join_tabs [js ''chr1'', js ''RefSeq'', js ''gene'', js ''1'', js ''10'', js ''.'',
                js ''+'', js ''.'']"

text \<open>
  Two intervals overlap unless one ends strictly before the other begins; a lane overlaps
  a feature when one of its features does; a lane is free of overlaps when any two
  features at different places of it do not overlap.
\<close>

definition intervals_overlap :: "feature \<Rightarrow> feature \<Rightarrow> bool" where
  "intervals_overlap a b \<longleftrightarrow> \<not> (end_pos a < start b \<or> end_pos b < start a)"

definition lane_overlaps :: "feature_node list \<Rightarrow> feature_node \<Rightarrow> bool" where
  "lane_overlaps lane f \<longleftrightarrow> (\<exists>g \<in> set lane. intervals_overlap (feat g) (feat f))"

definition non_overlapping :: "feature_node list \<Rightarrow> bool" where
  "non_overlapping lane \<longleftrightarrow>
     (\<forall>i < length lane. \<forall>j < length lane. i \<noteq> j \<longrightarrow>
        end_pos (feat (lane ! i)) < start (feat (lane ! j)) \<or>
        end_pos (feat (lane ! j)) < start (feat (lane ! i)))"

text \<open>A feature of a given type and span, with its children.\<close>

definition span_feature :: "string \<Rightarrow> int \<Rightarrow> int \<Rightarrow> nat \<Rightarrow> feature" where
  "span_feature t s e n =
     \<lparr> seqid = js ''chr1'', source = js ''RefSeq'', ftype = js t, start = s, end_pos = e,
       score = None, strand = [PLUS], phase = None, attributes = [], lineNumber = n \<rparr>"

text \<open>Three root genes: the second overlaps the first, the third only the second.\<close>

definition gene_a :: feature_node where "gene_a = Node (span_feature ''gene'' 1 10 1) []"
definition gene_b :: feature_node where "gene_b = Node (span_feature ''gene'' 5 15 2) []"
definition gene_c :: feature_node where "gene_c = Node (span_feature ''gene'' 11 20 3) []"

text \<open>
  The scale of a drawing area 100 wide over the coordinates \<open>[0, 100]\<close>, at the
  coordinates of the examples below: there the double d3 computes, \<open>100 * (x / 100)\<close>,
  is \<open>x\<close> itself (it is not at every coordinate: at 7 it is 7.000000000000001). The
  window is \<open>[0, 100]\<close> and the padding is 10.
\<close>

definition unit_scale :: scale where
  "unit_scale = \<lparr> scale_px = (\<lambda>x. of_int x), scale_invert = (\<lambda>y. y) \<rparr>"

text \<open>
  The double operations at the numbers of the examples: sums and differences of the
  whole numbers used there are exact, and the padding of the window \<open>[0, 100]\<close>, the
  double \<open>100 * 0.1\<close>, is 10.
\<close>

definition exact_ops :: float_ops where
  "exact_ops = \<lparr> fl_add = (\<lambda>a b. a + b), fl_sub = (\<lambda>a b. a - b),
                 fl_times_tenth = (\<lambda>a. a / 10) \<rparr>"

text \<open>A gene across the window with one exon child far to the right of it.\<close>

definition stray_exon :: feature where
  "stray_exon = span_feature ''exon'' 500 600 2"

definition stray_gene :: feature_node where
  "stray_gene = Node (span_feature ''gene'' 0 100 1) [Node stray_exon []]"

text \<open>A transcript whose one exon lies in the padding, just right of the window.\<close>

definition margin_exon :: feature where
  "margin_exon = span_feature ''exon'' 103 108 2"

definition margin_mRNA :: feature_node where
  "margin_mRNA = Node (span_feature ''mRNA'' 0 200 1) [Node margin_exon []]"

text \<open>A gene across the window with 5001 exon children inside the window.\<close>

definition crowded_gene :: feature_node where
  "crowded_gene =
     Node (span_feature ''gene'' 0 100 1)
       (map (\<lambda>n. Node (span_feature ''exon'' 10 20 n) []) [2..<5003])"

text \<open>The roots a redraw hands to \<open>renderFeature\<close>: those not outside the padded window,
  in track order, up to the cap.\<close>

definition rendered_roots :: "float_ops \<Rightarrow> scale \<Rightarrow> rat \<Rightarrow> feature_node list list \<Rightarrow> feature_node list" where
  "rendered_roots fl sc width tracks =
     take maxFeaturesToRender
       (filter (\<lambda>r. \<not> outside_padded_viewport fl sc width (feat r)) (concat tracks))"

text \<open>A root gene far to the right of the window.\<close>

definition far_gene :: feature_node where
  "far_gene = Node (span_feature ''gene'' 500 600 4) []"

text \<open>
  A window where the rounding decides: \<open>[0, v]\<close> with \<open>v\<close> the double
  0.9090909090909091. The double \<open>v * 0.1\<close> is 0.09090909090909091 and the double sum of
  the two is 1, while their exact sum is below 1.
\<close>

definition edge_view :: rat where
  "edge_view = 8188362958855447 / 9007199254740992"

definition edge_padding :: rat where
  "edge_padding = 3275345183542179 / 36028797018963968"

definition edge_scale :: scale where
  "edge_scale =
     \<lparr> scale_px = (\<lambda>x. of_int x * 110), scale_invert = (\<lambda>y. if y = 0 then 0 else edge_view) \<rparr>"

definition edge_ops :: float_ops where
  "edge_ops =
     \<lparr> fl_add = (\<lambda>a b. if a = edge_view \<and> b = edge_padding then 1 else a + b),
       fl_sub = (\<lambda>a b. a - b),
       fl_times_tenth = (\<lambda>a. if a = edge_view then edge_padding else a / 10) \<rparr>"






section \<open>Properties\<close>

lemmas code_unit_defs =
  TAB_def LF_def CR_def HASH_def PERCENT_def PLUS_def MINUS_def DOT_def SEMICOLON_def
  EQUALS_def QUESTION_def

lemmas line_parser_defs =
  js_def code_unit_defs trim_def trimStart_def trimEnd_def isWhiteSpace_def isDigit_def
  digitsValue_def parseInt_def parseGFF3Line_def parseAttributes_def validStrand_def
  assign_def hexValue_def parseHexOctet_def leadingOnes_def utf8CodePoint_def
  utf16Encode_def

subsection \<open>Splitting and trimming\<close>

lemma split_on_not_Nil: "split_on sep s \<noteq> []"
  by (induction s) (auto split: list.splits)

lemma length_split_on: "length (split_on sep s) = Suc (length (filter (\<lambda>c. c = sep) s))"
  by (induction s) (auto split: list.splits simp: split_on_not_Nil)

lemma split_lines_not_Nil: "split_lines s \<noteq> []"
  by (induction s rule: split_lines.induct) (auto split: list.splits)

lemma trimStart_append:
  "\<exists>x \<in> set a. \<not> isWhiteSpace x \<Longrightarrow> trimStart (a @ r) = trimStart a @ r"
  unfolding trimStart_def by (auto simp: dropWhile_append1)

lemma trimEnd_append:
  assumes "\<exists>x \<in> set b. \<not> isWhiteSpace x" and "\<forall>x \<in> set w. isWhiteSpace x"
  shows "trimEnd (r @ b @ w) = r @ trimEnd b"
proof -
  from assms(1) obtain x where x: "x \<in> set (rev b)" "\<not> isWhiteSpace x" by auto
  have "dropWhile isWhiteSpace (rev w @ rev b @ rev r) = dropWhile isWhiteSpace (rev b @ rev r)"
    using assms(2) by (intro dropWhile_append2) simp
  also have "\<dots> = dropWhile isWhiteSpace (rev b) @ rev r"
    using x by (rule dropWhile_append1)
  finally show ?thesis by (simp add: trimEnd_def)
qed

lemma trimStart_not_Nil: "\<exists>x \<in> set a. \<not> isWhiteSpace x \<Longrightarrow> trimStart a \<noteq> []"
  unfolding trimStart_def by (auto simp: dropWhile_eq_Nil_conv)

lemma set_trimStart: "set (trimStart a) \<subseteq> set a"
  unfolding trimStart_def by (auto dest: set_dropWhileD)

lemma set_trimEnd: "set (trimEnd a) \<subseteq> set a"
  unfolding trimEnd_def by (auto dest: set_dropWhileD)

lemma filter_absent: "x \<notin> set xs \<Longrightarrow> filter (\<lambda>c. c = x) xs = []"
  by (induction xs) auto

subsection \<open>The line parser\<close>

lemma parseGFF3Line_start_le_end:
  "parseGFF3Line l n = Inr (Some f) \<Longrightarrow> start f \<le> end_pos f"
  by (auto simp: parseGFF3Line_def Let_def split: if_splits option.splits sum.splits)

lemma parseGFF3Line_lineNumber:
  "parseGFF3Line l n = Inr (Some f) \<Longrightarrow> lineNumber f = n"
  by (auto simp: parseGFF3Line_def Let_def split: if_splits option.splits sum.splits)

lemma parseAttributes_pairs_error:
  "parseAttributes_pairs pairs attrs = Inl e \<Longrightarrow> e = URIError"
  by (induction pairs attrs rule: parseAttributes_pairs.induct)
     (auto simp: Let_def split: if_splits option.splits)

lemma parseAttributes_error: "parseAttributes s = Inl e \<Longrightarrow> e = URIError"
  by (auto simp: parseAttributes_def split: if_splits dest: parseAttributes_pairs_error)

lemma parseGFF3Line_CoordinateTypeError:
  "parseGFF3Line l n = Inl (CoordinateTypeError m) \<Longrightarrow>
   parseInt (split_on TAB (trim l) ! 3) = None \<or> parseInt (split_on TAB (trim l) ! 4) = None"
  by (auto simp: parseGFF3Line_def Let_def split: if_splits option.splits sum.splits
      dest: parseAttributes_error)

text \<open>
  Claim C5, at an input where the code departs from it. The start token is \<open>3.7\<close> and
  the end token is \<open>12abc\<close>; neither is an integer, and the claim has the line fail with
  the coordinate type error. \<open>parseInt\<close> reads the digits in front and ignores the rest,
  so the line yields a Feature with start 3 and end 12.
\<close>

theorem parseGFF3Line_accepts_numeric_prefix:
  "map_sum id (map_option (\<lambda>f. (start f, end_pos f))) (parseGFF3Line fractional_line 1)
   = Inr (Some (3, 12))"
  by (simp add: fractional_line_def gene_line_def line_parser_defs Let_def)

text \<open>
  Claim C9: there is an otherwise valid nine-column line, with the attribute \<open>Name=%ZZ\<close>,
  on which attribute decoding throws: the line parser fails with an error that is none of
  its four own, the file parser records the line in \<open>errors\<close> and no Feature comes of it.
  The same line with \<open>Name=ZZ\<close> is a Feature, and a segment without an equals sign is
  skipped without an error.
\<close>

theorem invalid_percent_escape_fails_line:
  "parseGFF3Line percent_line 10 = Inl URIError \<and>
   map_sum id (map_option attributes) (parseGFF3Line plain_line 10)
     = Inr (Some [(js ''ID'', js ''g1''), (js ''Name'', js ''ZZ'')]) \<and>
   map_sum id (map_option attributes) (parseGFF3Line no_equals_line 10)
     = Inr (Some [(js ''ID'', js ''g1'')]) \<and>
   map_sum id (\<lambda>r. (features r, errors r)) (parseGFF3 percent_file)
     = Inr ([], [\<lparr> err_lineNumber = 10, err_message = URIError, err_line = percent_line \<rparr>])"
  by (simp add: percent_line_def plain_line_def no_equals_line_def percent_file_def
      gene_line_def line_parser_defs Let_def parseGFF3_def too_many_errors_def
      buildHierarchy_def compute_extent_def distinct_in_order_def)

text \<open>
  Claim C10: the line is trimmed before it is split on tabs, so a record line whose
  ninth column is empty, that is eight columns each followed by a tab, has lost its last
  tab when it is split: it is counted as eight columns and fails with the column count
  error. The eight columns are free of tabs, the first and the last of them hold a
  code unit that is not white space, and the line is not a comment.
\<close>

theorem trailing_tab_line_has_eight_columns:
  assumes tabs: "TAB \<notin> set c1" "TAB \<notin> set c2" "TAB \<notin> set c3" "TAB \<notin> set c4"
      "TAB \<notin> set c5" "TAB \<notin> set c6" "TAB \<notin> set c7" "TAB \<notin> set c8"
    and first: "\<exists>x \<in> set c1. \<not> isWhiteSpace x"
    and last: "\<exists>x \<in> set c8. \<not> isWhiteSpace x"
    and record_line: "hd (trimStart c1) \<noteq> HASH"
  shows "parseGFF3Line (join_tabs [c1, c2, c3, c4, c5, c6, c7, c8] @ [TAB]) n
         = Inl (ColumnCountError n 8)"
proof -
  let ?mid = "TAB # c2 @ TAB # c3 @ TAB # c4 @ TAB # c5 @ TAB # c6 @ TAB # c7 @ [TAB]"
  have line: "join_tabs [c1, c2, c3, c4, c5, c6, c7, c8] @ [TAB] = c1 @ (?mid @ c8 @ [TAB])"
    by simp
  have ws: "\<forall>x \<in> set [TAB]. isWhiteSpace x"
    by (simp add: TAB_def isWhiteSpace_def)
  have "trim (c1 @ (?mid @ c8 @ [TAB])) = trimEnd (trimStart c1 @ (?mid @ c8 @ [TAB]))"
    unfolding trim_def using first by (simp only: trimStart_append)
  also have "\<dots> = trimEnd ((trimStart c1 @ ?mid) @ c8 @ [TAB])"
    by simp
  also have "\<dots> = (trimStart c1 @ ?mid) @ trimEnd c8"
    using last ws by (rule trimEnd_append)
  finally have trimmed: "trim (join_tabs [c1, c2, c3, c4, c5, c6, c7, c8] @ [TAB])
      = trimStart c1 @ ?mid @ trimEnd c8" (is "_ = ?t")
    using line by simp
  have c1': "TAB \<notin> set (trimStart c1)" using tabs(1) set_trimStart by blast
  have c8': "TAB \<notin> set (trimEnd c8)" using tabs(8) set_trimEnd by blast
  have "length (filter (\<lambda>c. c = TAB) ?t) = 7"
    using tabs c1' c8' by (simp add: filter_absent)
  then have cols: "length (split_on TAB ?t) = 8"
    by (simp add: length_split_on)
  have "hd ?t = hd (trimStart c1)"
    using trimStart_not_Nil [OF first] by simp
  then have nohash: "hd ?t \<noteq> HASH" using record_line by simp
  show ?thesis
    unfolding parseGFF3Line_def trimmed Let_def using cols nohash by simp
qed

text \<open>The theorem at a gene line whose attribute column is empty.\<close>

theorem trailing_tab_line_has_eight_columns_witness:
  "parseGFF3Line
     (join_tabs [js ''chr1'', js ''RefSeq'', js ''gene'', js ''1'', js ''10'', js ''.'',
                 js ''+'', js ''.''] @ [TAB]) 7
   = Inl (ColumnCountError 7 8)"
  using trailing_tab_line_has_eight_columns
    [of "js ''chr1''" "js ''RefSeq''" "js ''gene''" "js ''1''" "js ''10''" "js ''.''"
        "js ''+''" "js ''.''" 7]
  by (simp add: js_def TAB_def HASH_def isWhiteSpace_def trimStart_def)

subsection \<open>The hierarchy builder\<close>

lemma link_featureById: "featureById (link_features fs i h) = featureById h"
  by (induction fs i h rule: link_features.induct) (auto split: option.splits)

lemma link_rootFeatures:
  "rootFeatures (link_features fs i h) =
   rootFeatures h @
   map fst (filter (\<lambda>p. resolved_parent (featureById h) (snd p) = None) (enumerate i fs))"
  by (induction fs i h rule: link_features.induct)
     (auto simp: resolved_parent_def split: option.splits)

lemma link_children:
  "children (link_features fs i h) j =
   children h j @
   map fst (filter (\<lambda>p. resolved_parent (featureById h) (snd p) = Some j) (enumerate i fs))"
  by (induction fs i h rule: link_features.induct)
     (auto simp: resolved_parent_def split: option.splits)

lemma link_parent_outside:
  "k < i \<Longrightarrow> parent (link_features fs i h) k = parent h k"
  by (induction fs i h rule: link_features.induct) (auto split: option.splits)

lemma link_parent:
  "k < length fs \<Longrightarrow> parent h (i + k) = None \<Longrightarrow>
   parent (link_features fs i h) (i + k) = resolved_parent (featureById h) (fs ! k)"
proof (induction fs i h arbitrary: k rule: link_features.induct)
  case (1 i h)
  then show ?case by simp
next
  case (2 f fs i h)
  show ?case
  proof (cases k)
    case 0
    with "2.prems" show ?thesis
      by (auto simp: resolved_parent_def link_parent_outside split: option.splits)
  next
    case (Suc k')
    with 2 show ?thesis
      by (auto simp: resolved_parent_def split: option.splits)
  qed
qed

lemma link_warnings:
  "warnings (link_features fs i h) =
   warnings h @ map parent_warning (filter (unresolved_parent (featureById h)) fs)"
  by (induction fs i h rule: link_features.induct)
     (auto simp: unresolved_parent_def parent_warning_def split: option.splits)

lemma index_features_range:
  "map_of (index_features fs i m) k = Some p \<Longrightarrow>
   (i \<le> p \<and> p < i + length fs) \<or> map_of m k = Some p"
proof (induction fs i m rule: index_features.induct)
  case (1 i byId)
  then show ?case by simp
next
  case (2 f fs i byId)
  then show ?case
    by (fastforce simp: update_conv' split: option.splits if_splits)
qed

lemma in_filtered_enumerate:
  "k \<in> set (map fst (filter (\<lambda>p. P (snd p)) (enumerate 0 fs))) \<longleftrightarrow> k < length fs \<and> P (fs ! k)"
  by (force simp: in_set_enumerate_eq image_iff)

lemma distinct_filtered_enumerate:
  "distinct (map fst (filter Q (enumerate i fs)))"
  by (simp add: distinct_map_filter)

lemma resolved_parent_in_range:
  "resolved_parent (index_features fs 0 []) f = Some p \<Longrightarrow> p < length fs"
  by (auto simp: resolved_parent_def split: option.splits dest: index_features_range)

lemma buildHierarchy_rootFeatures:
  "i \<in> set (rootFeatures (buildHierarchy fs)) \<longleftrightarrow>
   i < length fs \<and> resolved_parent (index_features fs 0 []) (fs ! i) = None"
  using in_filtered_enumerate [of i "\<lambda>f. resolved_parent (index_features fs 0 []) f = None" fs]
  by (simp add: buildHierarchy_def link_rootFeatures)

lemma buildHierarchy_children:
  "i \<in> set (children (buildHierarchy fs) j) \<longleftrightarrow>
   i < length fs \<and> resolved_parent (index_features fs 0 []) (fs ! i) = Some j"
  using in_filtered_enumerate [of i "\<lambda>f. resolved_parent (index_features fs 0 []) f = Some j" fs]
  by (simp add: buildHierarchy_def link_children)

lemma buildHierarchy_parent:
  "i < length fs \<Longrightarrow>
   parent (buildHierarchy fs) i = resolved_parent (index_features fs 0 []) (fs ! i)"
  using link_parent [of i fs _ 0] by (simp add: buildHierarchy_def)

lemma buildHierarchy_featureById:
  "featureById (buildHierarchy fs) = index_features fs 0 []"
  by (simp add: buildHierarchy_def link_featureById)

text \<open>
  Every feature is pushed once, onto \<open>rootFeatures\<close> or onto the \<open>children\<close> of the
  feature its \<open>Parent\<close> resolves to: it is in exactly one of the two, and no list holds a
  feature twice.
\<close>

lemma buildHierarchy_partition:
  assumes "i < length fs"
  shows "((i \<in> set (rootFeatures (buildHierarchy fs)) \<and>
           parent (buildHierarchy fs) i = None \<and>
           (\<forall>j. i \<notin> set (children (buildHierarchy fs) j))) \<or>
          (i \<notin> set (rootFeatures (buildHierarchy fs)) \<and>
           (\<exists>p < length fs. parent (buildHierarchy fs) i = Some p \<and>
              i \<in> set (children (buildHierarchy fs) p) \<and>
              (\<forall>j. j \<noteq> p \<longrightarrow> i \<notin> set (children (buildHierarchy fs) j))))) \<and>
         distinct (rootFeatures (buildHierarchy fs)) \<and>
         distinct (children (buildHierarchy fs) j)"
proof -
  let ?res = "resolved_parent (index_features fs 0 []) (fs ! i)"
  have d: "distinct (rootFeatures (buildHierarchy fs))" "distinct (children (buildHierarchy fs) j)"
    by (simp_all add: buildHierarchy_def link_rootFeatures link_children
        distinct_filtered_enumerate)
  show ?thesis
  proof (cases ?res)
    case None
    with assms d show ?thesis
      by (simp add: buildHierarchy_rootFeatures buildHierarchy_children buildHierarchy_parent)
  next
    case (Some p)
    then have "p < length fs" by (rule resolved_parent_in_range)
    with Some assms d show ?thesis
      by (auto simp: buildHierarchy_rootFeatures buildHierarchy_children buildHierarchy_parent)
  qed
qed

lemmas hierarchy_eval_defs =
  buildHierarchy_def truthy_attribute_def linked_feature_def root_feature_def js_def PLUS_def

subsection \<open>The file parser\<close>

lemma parse_lines_eq:
  "parse_lines ls i fs es = (fs @ line_features i ls, es @ line_failures i ls)"
proof (induction ls arbitrary: i fs es)
  case Nil
  then show ?case by (simp add: line_features_def line_failures_def List.map_filter_simps)
next
  case (Cons l ls)
  show ?case
    by (cases "parseGFF3Line l (Suc i)")
       (auto simp: Cons line_features_def line_failures_def List.map_filter_simps
          split: option.splits)
qed

lemma lineNumber_line_features:
  "map lineNumber (line_features i ls) =
   map fst (filter (\<lambda>p. \<exists>f. parseGFF3Line (snd p) (fst p) = Inr (Some f)) (enumerate (Suc i) ls))"
proof (induction ls arbitrary: i)
  case Nil
  then show ?case by (simp add: line_features_def List.map_filter_simps)
next
  case (Cons l ls)
  from Cons [of "Suc i"] show ?case
    by (cases "parseGFF3Line l (Suc i)")
       (auto simp: line_features_def List.map_filter_simps parseGFF3Line_lineNumber
          split: option.splits)
qed

lemma lineNumber_line_failures:
  "map err_lineNumber (line_failures i ls) =
   map fst (filter (\<lambda>p. isl (parseGFF3Line (snd p) (fst p))) (enumerate (Suc i) ls))"
proof (induction ls arbitrary: i)
  case Nil
  then show ?case by (simp add: line_failures_def List.map_filter_simps)
next
  case (Cons l ls)
  from Cons [of "Suc i"] show ?case
    by (cases "parseGFF3Line l (Suc i)")
       (auto simp: line_failures_def List.map_filter_simps)
qed

lemma distinct_lineNumber_line_features: "distinct (map lineNumber (line_features i ls))"
  by (simp only: lineNumber_line_features distinct_filtered_enumerate)

lemma feature_line_did_not_fail:
  assumes "f \<in> set (line_features i ls)" and "e \<in> set (line_failures i ls)"
  shows "err_lineNumber e \<noteq> lineNumber f"
proof
  assume eq: "err_lineNumber e = lineNumber f"
  from assms(1) have "lineNumber f \<in> set (map lineNumber (line_features i ls))" by simp
  then obtain p where p: "p \<in> set (enumerate (Suc i) ls)" "fst p = lineNumber f"
      "\<exists>g. parseGFF3Line (snd p) (fst p) = Inr (Some g)"
    unfolding lineNumber_line_features by auto
  from assms(2) have "err_lineNumber e \<in> set (map err_lineNumber (line_failures i ls))" by simp
  then obtain q where q: "q \<in> set (enumerate (Suc i) ls)" "fst q = err_lineNumber e"
      "isl (parseGFF3Line (snd q) (fst q))"
    unfolding lineNumber_line_failures by auto
  from p(1,2) q(1,2) eq have "snd p = snd q" "fst p = fst q"
    by (auto simp: in_set_enumerate_eq)
  with p(3) q(3) show False by auto
qed

lemma filter_key_distinct:
  "distinct (map g xs) \<Longrightarrow> i < length xs \<Longrightarrow> filter (\<lambda>x. g x = g (xs ! i)) xs = [xs ! i]"
proof (induction xs arbitrary: i)
  case Nil
  then show ?case by simp
next
  case (Cons x xs)
  show ?case
  proof (cases i)
    case 0
    with Cons.prems show ?thesis
      by (auto simp: filter_empty_conv image_iff)
  next
    case (Suc k)
    with Cons show ?thesis by (auto simp: image_iff)
  qed
qed

lemma parseGFF3_success:
  assumes "parseGFF3 content = Inr r"
  shows "features r = line_features 0 (split_lines content)"
    and "errors r = line_failures 0 (split_lines content)"
    and "hier r = buildHierarchy (features r)"
  using assms
  by (auto simp: parseGFF3_def parse_lines_eq Let_def split: if_splits)

lemma buildHierarchy_warnings:
  "warnings (buildHierarchy fs) =
   map parent_warning (filter (unresolved_parent (index_features fs 0 [])) fs)"
  by (simp add: buildHierarchy_def link_warnings)

lemma unresolved_parent_resolved:
  "unresolved_parent byId f \<Longrightarrow> resolved_parent byId f = None"
  by (auto simp: unresolved_parent_def resolved_parent_def split: option.splits)

lemmas file_parser_eval_defs =
  line_parser_defs Let_def parseGFF3_def too_many_errors_def buildHierarchy_def
  truthy_attribute_def compute_extent_def distinct_in_order_def

text \<open>
  Claim C2, at an input where the code departs from it: a file of one feature whose
  \<open>Parent\<close> names no \<open>ID\<close>. The parse succeeds and the feature is a root, but the
  \<open>errors\<close> list of the result is empty: the warning goes to the console only.
\<close>

theorem unresolved_parent_not_in_errors:
  "\<not> isl (parseGFF3 orphan_file) \<and>
   map lineNumber (features (projr (parseGFF3 orphan_file))) = [1] \<and>
   errors (projr (parseGFF3 orphan_file)) = [] \<and>
   rootFeatures (hier (projr (parseGFF3 orphan_file))) = [0] \<and>
   warnings (hier (projr (parseGFF3 orphan_file))) = [(1, js ''missingID'', js ''m1'')]"
  by (simp add: orphan_file_def file_parser_eval_defs)

text \<open>
  Claim C2 as the code has it: in a successful parse, a feature whose \<open>Parent\<close>
  attribute names no indexed \<open>ID\<close> is in \<open>rootFeatures\<close> and has no parent; exactly one
  warning is logged to the console for its line, naming its missing parent; and the
  \<open>errors\<close> list has no entry for its line.
\<close>

theorem unresolved_parent_becomes_root:
  assumes ok: "parseGFF3 content = Inr r"
    and i: "i < length (features r)"
    and un: "unresolved_parent (featureById (hier r)) (features r ! i)"
  shows "i \<in> set (rootFeatures (hier r)) \<and>
         parent (hier r) i = None \<and>
         filter (\<lambda>w. fst w = lineNumber (features r ! i)) (warnings (hier r))
           = [parent_warning (features r ! i)] \<and>
         (\<forall>e \<in> set (errors r). err_lineNumber e \<noteq> lineNumber (features r ! i))"
proof -
  let ?fs = "features r"
  let ?byId = "index_features ?fs 0 []"
  let ?L = "lineNumber (?fs ! i)"
  have h: "hier r = buildHierarchy ?fs" using ok by (rule parseGFF3_success)
  have fs: "?fs = line_features 0 (split_lines content)" using ok by (rule parseGFF3_success)
  have es: "errors r = line_failures 0 (split_lines content)" using ok by (rule parseGFF3_success)
  from un have un': "unresolved_parent ?byId (?fs ! i)"
    by (simp add: h buildHierarchy_featureById)
  then have res: "resolved_parent ?byId (?fs ! i) = None"
    by (rule unresolved_parent_resolved)
  have root: "i \<in> set (rootFeatures (hier r))"
    using i res by (simp add: h buildHierarchy_rootFeatures)
  have par: "parent (hier r) i = None"
    using i res by (simp add: h buildHierarchy_parent)
  have dist: "distinct (map lineNumber ?fs)"
    by (simp only: fs distinct_lineNumber_line_features)
  have "filter (\<lambda>w. fst w = ?L) (warnings (hier r))
        = map parent_warning (filter (\<lambda>f. lineNumber f = ?L) (filter (unresolved_parent ?byId) ?fs))"
    by (simp add: h buildHierarchy_warnings filter_map comp_def parent_warning_def)
  also have "\<dots> = map parent_warning (filter (unresolved_parent ?byId) (filter (\<lambda>f. lineNumber f = ?L) ?fs))"
    by (simp add: conj_commute)
  also have "filter (\<lambda>f. lineNumber f = ?L) ?fs = [?fs ! i]"
    using dist i by (rule filter_key_distinct)
  finally have warn: "filter (\<lambda>w. fst w = ?L) (warnings (hier r)) = [parent_warning (?fs ! i)]"
    using un' by simp
  have "?fs ! i \<in> set (line_features 0 (split_lines content))"
    using i fs by (metis nth_mem)
  then have err: "\<forall>e \<in> set (errors r). err_lineNumber e \<noteq> ?L"
    unfolding es by (blast dest: feature_line_did_not_fail)
  from root par warn err show ?thesis by blast
qed

text \<open>The theorem at the file of one such feature.\<close>

theorem unresolved_parent_becomes_root_witness:
  "0 \<in> set (rootFeatures (hier (projr (parseGFF3 orphan_file)))) \<and>
   filter (\<lambda>w. fst w = 1) (warnings (hier (projr (parseGFF3 orphan_file))))
     = [(1, js ''missingID'', js ''m1'')] \<and>
   errors (projr (parseGFF3 orphan_file)) = []"
proof -
  have ok: "parseGFF3 orphan_file = Inr (projr (parseGFF3 orphan_file))"
    by (simp add: orphan_file_def file_parser_eval_defs)
  have i: "0 < length (features (projr (parseGFF3 orphan_file)))"
    by (simp add: orphan_file_def file_parser_eval_defs)
  have un: "unresolved_parent (featureById (hier (projr (parseGFF3 orphan_file))))
              (features (projr (parseGFF3 orphan_file)) ! 0)"
    by (simp add: orphan_file_def file_parser_eval_defs unresolved_parent_def)
  from unresolved_parent_becomes_root [OF ok i un] show ?thesis
    by (simp add: orphan_file_def file_parser_eval_defs parent_warning_def)
qed

subsection \<open>Reaching the features from the roots\<close>

lemma reachable_in_range:
  "reachable_from_roots (buildHierarchy fs) i \<Longrightarrow> i < length fs"
  by (induction rule: reachable_from_roots.induct)
     (simp_all add: buildHierarchy_rootFeatures buildHierarchy_children)

lemma reachable_parent_chain:
  "reachable_from_roots (buildHierarchy fs) i \<Longrightarrow> \<exists>n. parent_chain_ends (buildHierarchy fs) n i"
proof (induction rule: reachable_from_roots.induct)
  case (root i)
  then have "parent (buildHierarchy fs) i = None"
    by (simp add: buildHierarchy_rootFeatures buildHierarchy_parent)
  then have "parent_chain_ends (buildHierarchy fs) 0 i" by simp
  then show ?case ..
next
  case (child p i)
  then obtain n where n: "parent_chain_ends (buildHierarchy fs) n p" by blast
  from child.hyps(2) have "parent (buildHierarchy fs) i = Some p"
    by (simp add: buildHierarchy_children buildHierarchy_parent)
  with n have "parent_chain_ends (buildHierarchy fs) (Suc n) i" by simp
  then show ?case ..
qed

lemma parent_chain_reachable:
  "i < length fs \<Longrightarrow> parent_chain_ends (buildHierarchy fs) n i \<Longrightarrow>
   reachable_from_roots (buildHierarchy fs) i"
proof (induction n arbitrary: i)
  case 0
  then have "i \<in> set (rootFeatures (buildHierarchy fs))"
    by (simp add: buildHierarchy_rootFeatures buildHierarchy_parent)
  then show ?case by (rule reachable_from_roots.root)
next
  case (Suc n)
  show ?case
  proof (cases "parent (buildHierarchy fs) i")
    case None
    with Suc.prems(1) have "i \<in> set (rootFeatures (buildHierarchy fs))"
      by (simp add: buildHierarchy_rootFeatures buildHierarchy_parent)
    then show ?thesis by (rule reachable_from_roots.root)
  next
    case (Some p)
    with Suc.prems(1) have res: "resolved_parent (index_features fs 0 []) (fs ! i) = Some p"
      by (simp add: buildHierarchy_parent)
    then have p: "p < length fs" by (rule resolved_parent_in_range)
    from Suc.prems(2) Some have "parent_chain_ends (buildHierarchy fs) n p" by simp
    with p have "reachable_from_roots (buildHierarchy fs) p" by (rule Suc.IH)
    moreover from res Suc.prems(1) have "i \<in> set (children (buildHierarchy fs) p)"
      by (simp add: buildHierarchy_children)
    ultimately show ?thesis by (rule reachable_from_roots.child)
  qed
qed

lemma parent_chain_of_parent:
  "parent_chain_ends h n i \<Longrightarrow> parent h i = Some p \<Longrightarrow> \<exists>m. parent_chain_ends h m p"
  by (cases n) auto

lemma no_roots_unreachable:
  "rootFeatures h = [] \<Longrightarrow> \<not> reachable_from_roots h i"
proof
  assume "rootFeatures h = []" and "reachable_from_roots h i"
  from this(2) this(1) show False
    by (induction rule: reachable_from_roots.induct) simp_all
qed

text \<open>
  Claim C3, at inputs where the code departs from it: the two cycles the claim names.
  The file of one feature with \<open>ID=a;Parent=a\<close> parses without an error or a warning;
  the feature is its own child, \<open>rootFeatures\<close> is empty, and the traversal from
  \<open>rootFeatures\<close> does not reach the feature. Two features that name each other as
  parent are each other's child, and neither is reached.
\<close>

theorem cycle_members_are_unreachable:
  "\<not> isl (parseGFF3 cycle_file) \<and>
   features (projr (parseGFF3 cycle_file)) = self_cycle \<and>
   errors (projr (parseGFF3 cycle_file)) = [] \<and>
   warnings (hier (projr (parseGFF3 cycle_file))) = [] \<and>
   rootFeatures (hier (projr (parseGFF3 cycle_file))) = [] \<and>
   children (hier (projr (parseGFF3 cycle_file))) 0 = [0] \<and>
   \<not> reachable_from_roots (hier (projr (parseGFF3 cycle_file))) 0 \<and>
   rootFeatures (buildHierarchy two_cycle) = [] \<and>
   children (buildHierarchy two_cycle) 0 = [1] \<and>
   children (buildHierarchy two_cycle) 1 = [0] \<and>
   \<not> reachable_from_roots (buildHierarchy two_cycle) 0 \<and>
   \<not> reachable_from_roots (buildHierarchy two_cycle) 1"
proof -
  have parsed: "\<not> isl (parseGFF3 cycle_file) \<and>
      features (projr (parseGFF3 cycle_file)) = self_cycle \<and>
      errors (projr (parseGFF3 cycle_file)) = [] \<and>
      warnings (hier (projr (parseGFF3 cycle_file))) = [] \<and>
      rootFeatures (hier (projr (parseGFF3 cycle_file))) = [] \<and>
      children (hier (projr (parseGFF3 cycle_file))) 0 = [0]"
    by (simp add: cycle_file_def gene_line_def self_cycle_def linked_feature_def
        file_parser_eval_defs)
  then have one: "\<not> reachable_from_roots (hier (projr (parseGFF3 cycle_file))) 0"
    by (intro no_roots_unreachable) simp
  have two: "rootFeatures (buildHierarchy two_cycle) = [] \<and>
      children (buildHierarchy two_cycle) 0 = [1] \<and>
      children (buildHierarchy two_cycle) 1 = [0]"
    by (simp add: two_cycle_def hierarchy_eval_defs)
  then have "\<not> reachable_from_roots (buildHierarchy two_cycle) 0"
      and "\<not> reachable_from_roots (buildHierarchy two_cycle) 1"
    by (simp_all add: no_roots_unreachable)
  with parsed one two show ?thesis by blast
qed

text \<open>
  Claim C3 as the code has it. After \<open>buildHierarchy\<close>, every feature is in exactly one
  of two places, never both and never neither: in \<open>rootFeatures\<close>, and then it has no
  parent and is in no \<open>children\<close> list; or in the \<open>children\<close> list of the feature its
  \<open>parent\<close> reference names, and then in no other \<open>children\<close> list and not in
  \<open>rootFeatures\<close>. It is there once. And a feature whose chain of \<open>parent\<close> references
  ends at a feature without a parent is reached by the traversal from \<open>rootFeatures\<close>,
  as is its parent when it has one.
\<close>

theorem buildHierarchy_reaches_unless_cycle:
  assumes "i < length fs"
  shows "((i \<in> set (rootFeatures (buildHierarchy fs)) \<and>
           parent (buildHierarchy fs) i = None \<and>
           (\<forall>j. i \<notin> set (children (buildHierarchy fs) j))) \<or>
          (i \<notin> set (rootFeatures (buildHierarchy fs)) \<and>
           (\<exists>p < length fs. parent (buildHierarchy fs) i = Some p \<and>
              i \<in> set (children (buildHierarchy fs) p) \<and>
              (\<forall>j. j \<noteq> p \<longrightarrow> i \<notin> set (children (buildHierarchy fs) j))))) \<and>
         distinct (rootFeatures (buildHierarchy fs)) \<and>
         distinct (children (buildHierarchy fs) j) \<and>
         (parent_chain_ends (buildHierarchy fs) n i \<longrightarrow>
            reachable_from_roots (buildHierarchy fs) i \<and>
            (\<forall>p. parent (buildHierarchy fs) i = Some p \<longrightarrow>
               reachable_from_roots (buildHierarchy fs) p))"
proof -
  have reach: "parent_chain_ends (buildHierarchy fs) n i \<longrightarrow>
      reachable_from_roots (buildHierarchy fs) i \<and>
      (\<forall>p. parent (buildHierarchy fs) i = Some p \<longrightarrow> reachable_from_roots (buildHierarchy fs) p)"
  proof (intro impI conjI allI)
    assume c: "parent_chain_ends (buildHierarchy fs) n i"
    with assms show "reachable_from_roots (buildHierarchy fs) i"
      by (rule parent_chain_reachable)
    fix p
    assume p: "parent (buildHierarchy fs) i = Some p"
    from parent_chain_of_parent [OF c p]
    obtain m where m: "parent_chain_ends (buildHierarchy fs) m p"
      by blast
    from p assms have "resolved_parent (index_features fs 0 []) (fs ! i) = Some p"
      by (simp add: buildHierarchy_parent)
    then have "p < length fs" by (rule resolved_parent_in_range)
    then show "reachable_from_roots (buildHierarchy fs) p"
      using m by (rule parent_chain_reachable)
  qed
  from buildHierarchy_partition [OF assms, of j] reach show ?thesis by blast
qed

text \<open>
  The theorem at a chain of three features: the last is reached through the second and
  the first, the only root.
\<close>

theorem buildHierarchy_reaches_unless_cycle_witness:
  "rootFeatures (buildHierarchy family) = [0] \<and>
   children (buildHierarchy family) 0 = [1] \<and>
   children (buildHierarchy family) 1 = [2] \<and>
   parent_chain_ends (buildHierarchy family) 2 2 \<and>
   reachable_from_roots (buildHierarchy family) 2 \<and>
   reachable_from_roots (buildHierarchy family) 1"
proof -
  have ev: "rootFeatures (buildHierarchy family) = [0] \<and>
      children (buildHierarchy family) 0 = [1] \<and>
      children (buildHierarchy family) 1 = [2]"
    by (simp add: family_def hierarchy_eval_defs)
  have par: "parent (buildHierarchy family) 2 = Some 1" "parent (buildHierarchy family) 1 = Some 0"
      "parent (buildHierarchy family) 0 = None"
    by (simp_all add: family_def hierarchy_eval_defs)
  have two: "(2::nat) = Suc (Suc 0)" by simp
  have chain: "parent_chain_ends (buildHierarchy family) 2 2"
    unfolding two parent_chain_ends.simps using par by (simp add: two [symmetric])
  have len: "2 < length family" by (simp add: family_def)
  from buildHierarchy_reaches_unless_cycle [OF len, of 0 2] chain par(1)
  have "reachable_from_roots (buildHierarchy family) 2 \<and>
      reachable_from_roots (buildHierarchy family) 1"
    by blast
  with ev chain show ?thesis by blast
qed

lemma too_many_errors_iff:
  "0 < n \<Longrightarrow> too_many_errors e n \<longleftrightarrow> n < 10 * e"
proof -
  assume n: "0 < n"
  then have "(1 / 10 < (of_nat e / of_nat n :: rat)) \<longleftrightarrow> (of_nat n :: rat) < 10 * of_nat e"
    by (simp add: field_simps)
  also have "\<dots> \<longleftrightarrow> (of_nat n :: rat) < of_nat (10 * e)" by simp
  also have "\<dots> \<longleftrightarrow> n < 10 * e" by (simp only: of_nat_less_iff)
  finally show ?thesis
    by (auto simp: too_many_errors_def)
qed

lemma failed_fraction_too_many:
  "failed_fraction_exceeds_tenth content \<longleftrightarrow>
   too_many_errors (length (line_failures 0 (split_lines content))) (length (split_lines content))"
proof -
  have "0 < length (split_lines content)" using split_lines_not_Nil by simp
  then show ?thesis
    by (auto simp: failed_fraction_exceeds_tenth_def too_many_errors_def)
qed

lemma empty_buffer_lines:
  "\<not> failed_fraction_exceeds_tenth []"
  by (simp add: failed_fraction_exceeds_tenth_def line_failures_def List.map_filter_simps
      line_parser_defs)

text \<open>
  Claim C1, at an input where the code departs from it: the empty buffer. It has one
  line, which does not fail, so it is below the threshold; yet \<open>parseGFF3\<close> does not
  succeed on it, its guard throws the invalid input error.
\<close>

theorem empty_buffer_is_rejected:
  "\<not> failed_fraction_exceeds_tenth [] \<and> parseGFF3 [] = Inl InvalidInputError"
  by (simp add: failed_fraction_exceeds_tenth_def line_failures_def List.map_filter_simps
      parseGFF3_def line_parser_defs)

text \<open>
  Claim C1 as the code has it. For every buffer, \<open>parseGFF3\<close> throws the aggregate
  error if and only if the number of failed lines divided by the number of lines exceeds
  10%, that is, the lines are fewer than ten times the failed lines (so exactly 10% is
  not enough); the error then carries the number of failed lines, the first five entries
  and, beyond five, the number of the others. For every non-empty buffer below the
  threshold the parse succeeds, \<open>errors\<close> holds the entries of the failed lines and
  \<open>features\<close> the features of the other lines.
\<close>

theorem malformed_file_threshold:
  "((\<exists>n es m. parseGFF3 content = Inl (MalformedFileError n es m)) \<longleftrightarrow>
      failed_fraction_exceeds_tenth content) \<and>
   (failed_fraction_exceeds_tenth content \<longleftrightarrow>
      length (split_lines content) < 10 * length (line_failures 0 (split_lines content))) \<and>
   (failed_fraction_exceeds_tenth content \<longrightarrow>
      parseGFF3 content =
        Inl (MalformedFileError (length (line_failures 0 (split_lines content)))
               (take 5 (line_failures 0 (split_lines content)))
               (if length (line_failures 0 (split_lines content)) > 5
                then Some (length (line_failures 0 (split_lines content)) - 5) else None))) \<and>
   (content \<noteq> [] \<and> \<not> failed_fraction_exceeds_tenth content \<longrightarrow>
      (\<exists>r. parseGFF3 content = Inr r \<and>
           errors r = line_failures 0 (split_lines content) \<and>
           features r = line_features 0 (split_lines content)))"
proof -
  let ?ls = "split_lines content"
  let ?F = "line_failures 0 ?ls"
  have pos: "0 < length ?ls" using split_lines_not_Nil by simp
  have tm: "failed_fraction_exceeds_tenth content \<longleftrightarrow> too_many_errors (length ?F) (length ?ls)"
    by (rule failed_fraction_too_many)
  have empty: "content = [] \<Longrightarrow> \<not> failed_fraction_exceeds_tenth content"
    using empty_buffer_lines by simp
  have fails: "failed_fraction_exceeds_tenth content \<Longrightarrow>
      parseGFF3 content = Inl (MalformedFileError (length ?F) (take 5 ?F)
        (if length ?F > 5 then Some (length ?F - 5) else None))"
  proof -
    assume a: "failed_fraction_exceeds_tenth content"
    then have ne: "content \<noteq> []" using empty by blast
    from a have "too_many_errors (length ?F) (length ?ls)" by (simp only: tm)
    with ne show ?thesis
      by (simp add: parseGFF3_def parse_lines_eq Let_def)
  qed
  have succeeds: "content \<noteq> [] \<Longrightarrow> \<not> failed_fraction_exceeds_tenth content \<Longrightarrow>
      \<exists>r. parseGFF3 content = Inr r \<and> errors r = ?F \<and> features r = line_features 0 ?ls"
    by (simp add: tm parseGFF3_def parse_lines_eq Let_def)
  have iff: "(\<exists>n es m. parseGFF3 content = Inl (MalformedFileError n es m)) \<longleftrightarrow>
      failed_fraction_exceeds_tenth content"
  proof
    assume "\<exists>n es m. parseGFF3 content = Inl (MalformedFileError n es m)"
    then show "failed_fraction_exceeds_tenth content"
      by (auto simp: tm parseGFF3_def parse_lines_eq Let_def split: if_splits)
  next
    assume "failed_fraction_exceeds_tenth content"
    then show "\<exists>n es m. parseGFF3 content = Inl (MalformedFileError n es m)"
      using fails by blast
  qed
  have count: "failed_fraction_exceeds_tenth content \<longleftrightarrow> length ?ls < 10 * length ?F"
    unfolding tm using pos by (rule too_many_errors_iff)
  from iff count fails succeeds show ?thesis by blast
qed

lemmas line_list_eval_defs =
  failed_fraction_exceeds_tenth_def line_failures_def List.map_filter_simps

text \<open>
  The theorem at a file of ten lines with one failed line, exactly 10%, which parses
  with the failure in \<open>errors\<close>, and at a file whose only line fails, which is refused.
\<close>

theorem malformed_file_threshold_witness:
  "length (split_lines percent_file) = 10 \<and>
   errors (projr (parseGFF3 percent_file))
     = [\<lparr> err_lineNumber = 10, err_message = URIError, err_line = percent_line \<rparr>] \<and>
   parseGFF3 short_file
     = Inl (MalformedFileError 1
              [\<lparr> err_lineNumber = 1, err_message = ColumnCountError 1 8, err_line = short_file \<rparr>]
              None)"
proof -
  have lf: "line_failures 0 (split_lines percent_file)
      = [\<lparr> err_lineNumber = 10, err_message = URIError, err_line = percent_line \<rparr>]"
    by (simp add: percent_file_def percent_line_def gene_line_def line_list_eval_defs
        line_parser_defs Let_def)
  have len: "length (split_lines percent_file) = 10"
    by (simp add: percent_file_def percent_line_def gene_line_def line_parser_defs)
  have below: "\<not> failed_fraction_exceeds_tenth percent_file"
    by (simp add: failed_fraction_exceeds_tenth_def lf len)
  have ne: "percent_file \<noteq> []"
    by (simp add: percent_file_def)
  from malformed_file_threshold [of percent_file] below ne
  obtain r where "parseGFF3 percent_file = Inr r"
      and "errors r = line_failures 0 (split_lines percent_file)"
    by blast
  then have e: "errors (projr (parseGFF3 percent_file))
      = [\<lparr> err_lineNumber = 10, err_message = URIError, err_line = percent_line \<rparr>]"
    by (simp add: lf)
  have sf: "line_failures 0 (split_lines short_file)
      = [\<lparr> err_lineNumber = 1, err_message = ColumnCountError 1 8, err_line = short_file \<rparr>]"
    by (simp add: short_file_def line_list_eval_defs line_parser_defs Let_def)
  have slen: "length (split_lines short_file) = 1"
    by (simp add: short_file_def line_parser_defs)
  have above: "failed_fraction_exceeds_tenth short_file"
    by (simp add: failed_fraction_exceeds_tenth_def sf slen)
  with malformed_file_threshold [of short_file]
  have m: "parseGFF3 short_file
     = Inl (MalformedFileError 1
              [\<lparr> err_lineNumber = 1, err_message = ColumnCountError 1 8, err_line = short_file \<rparr>]
              None)"
    by (simp add: sf)
  from len e m show ?thesis by blast
qed

subsection \<open>The track layout\<close>

lemma hasOverlap_lane_overlaps: "hasOverlap track f \<longleftrightarrow> lane_overlaps track f"
  by (auto simp: hasOverlap_def lane_overlaps_def intervals_overlap_def list_ex_iff)

lemma organizeIntoTracks_snoc:
  "organizeIntoTracks (fs @ [f]) = place f (organizeIntoTracks fs)"
  by (simp add: organizeIntoTracks_def)

lemma place_first_fit:
  "(\<exists>k < length T. \<not> lane_overlaps (T ! k) f \<and> (\<forall>j < k. lane_overlaps (T ! j) f) \<and>
       place f T = T[k := T ! k @ [f]]) \<or>
   ((\<forall>k < length T. lane_overlaps (T ! k) f) \<and> place f T = T @ [[f]])"
proof (induction T)
  case Nil
  then show ?case by simp
next
  case (Cons t T)
  show ?case
  proof (cases "lane_overlaps t f")
    case False
    then have "0 < length (t # T) \<and> \<not> lane_overlaps ((t # T) ! 0) f \<and>
        (\<forall>j < 0. lane_overlaps ((t # T) ! j) f) \<and>
        place f (t # T) = (t # T)[0 := (t # T) ! 0 @ [f]]"
      by (simp add: hasOverlap_lane_overlaps)
    then show ?thesis by blast
  next
    case True
    from Cons show ?thesis
    proof
      assume "\<exists>k < length T. \<not> lane_overlaps (T ! k) f \<and> (\<forall>j < k. lane_overlaps (T ! j) f) \<and>
          place f T = T[k := T ! k @ [f]]"
      then obtain k where k: "k < length T" "\<not> lane_overlaps (T ! k) f"
          "\<forall>j < k. lane_overlaps (T ! j) f" "place f T = T[k := T ! k @ [f]]"
        by blast
      have "\<forall>j < Suc k. lane_overlaps ((t # T) ! j) f"
        using True k(3) by (auto simp: less_Suc_eq_0_disj)
      with True k have "Suc k < length (t # T) \<and> \<not> lane_overlaps ((t # T) ! Suc k) f \<and>
          (\<forall>j < Suc k. lane_overlaps ((t # T) ! j) f) \<and>
          place f (t # T) = (t # T)[Suc k := (t # T) ! Suc k @ [f]]"
        by (simp add: hasOverlap_lane_overlaps)
      then show ?thesis by blast
    next
      assume a: "(\<forall>k < length T. lane_overlaps (T ! k) f) \<and> place f T = T @ [[f]]"
      then have "\<forall>k < length (t # T). lane_overlaps ((t # T) ! k) f"
        using True by (auto simp: less_Suc_eq_0_disj)
      with a True show ?thesis by (simp add: hasOverlap_lane_overlaps)
    qed
  qed
qed

lemma non_overlapping_snoc:
  assumes "non_overlapping lane" and "\<not> lane_overlaps lane f"
  shows "non_overlapping (lane @ [f])"
proof -
  have new: "\<And>i. i < length lane \<Longrightarrow>
      end_pos (feat (lane ! i)) < start (feat f) \<or> end_pos (feat f) < start (feat (lane ! i))"
    using assms(2) by (auto simp: lane_overlaps_def intervals_overlap_def)
  show ?thesis
    unfolding non_overlapping_def
  proof (intro allI impI)
    fix i j
    assume i: "i < length (lane @ [f])" and j: "j < length (lane @ [f])" and ne: "i \<noteq> j"
    consider "i < length lane" "j < length lane" | "i < length lane" "j = length lane"
      | "i = length lane" "j < length lane"
      using i j ne by force
    then show "end_pos (feat ((lane @ [f]) ! i)) < start (feat ((lane @ [f]) ! j)) \<or>
        end_pos (feat ((lane @ [f]) ! j)) < start (feat ((lane @ [f]) ! i))"
    proof cases
      case 1
      then show ?thesis
        using assms(1) ne by (simp add: non_overlapping_def nth_append)
    next
      case 2
      then show ?thesis using new [of i] by (simp add: nth_append)
    next
      case 3
      then show ?thesis using new [of j] by (auto simp: nth_append)
    qed
  qed
qed

lemma non_overlapping_single: "non_overlapping [f]"
  by (simp add: non_overlapping_def)

lemma place_non_overlapping:
  "\<forall>lane \<in> set T. non_overlapping lane \<Longrightarrow> \<forall>lane \<in> set (place f T). non_overlapping lane"
  by (induction T)
     (auto simp: non_overlapping_single non_overlapping_snoc hasOverlap_lane_overlaps)

lemma organizeIntoTracks_non_overlapping:
  "\<forall>lane \<in> set (organizeIntoTracks fs). non_overlapping lane"
proof (induction fs rule: rev_induct)
  case Nil
  then show ?case by (simp add: organizeIntoTracks_def)
next
  case (snoc f fs)
  then show ?case
    unfolding organizeIntoTracks_snoc by (rule place_non_overlapping)
qed

text \<open>
  Claim C4: in the lanes \<open>organizeIntoTracks\<close> produces, any two features at different
  places of one lane satisfy \<open>a.end < b.start\<close> or \<open>b.end < a.start\<close>. The lanes are
  built by first fit in file order: there are none for no features, and the next feature
  is appended to the first lane none of whose features overlaps it, every lane before
  that one overlapping it, or, when every lane overlaps it, a new lane is opened for it
  after the others.
\<close>

theorem organizeIntoTracks_first_fit:
  "(\<forall>lane \<in> set (organizeIntoTracks fs). non_overlapping lane) \<and>
   organizeIntoTracks [] = [] \<and>
   ((\<exists>k < length (organizeIntoTracks fs).
       \<not> lane_overlaps (organizeIntoTracks fs ! k) f \<and>
       (\<forall>j < k. lane_overlaps (organizeIntoTracks fs ! j) f) \<and>
       organizeIntoTracks (fs @ [f])
         = (organizeIntoTracks fs)[k := organizeIntoTracks fs ! k @ [f]]) \<or>
    ((\<forall>k < length (organizeIntoTracks fs). lane_overlaps (organizeIntoTracks fs ! k) f) \<and>
     organizeIntoTracks (fs @ [f]) = organizeIntoTracks fs @ [[f]]))"
  using organizeIntoTracks_non_overlapping [of fs] place_first_fit [of "organizeIntoTracks fs" f]
  by (simp add: organizeIntoTracks_snoc organizeIntoTracks_def)

lemmas layout_eval_defs =
  organizeIntoTracks_def hasOverlap_def gene_a_def gene_b_def gene_c_def span_feature_def

text \<open>
  The theorem at three genes: the second overlaps the first and opens a lane, the third
  fits the first lane.
\<close>

theorem organizeIntoTracks_first_fit_witness:
  "organizeIntoTracks [gene_a, gene_b] = [[gene_a], [gene_b]] \<and>
   organizeIntoTracks ([gene_a, gene_b] @ [gene_c]) = [[gene_a, gene_c], [gene_b]] \<and>
   non_overlapping [gene_a, gene_c]"
proof -
  have two: "organizeIntoTracks [gene_a, gene_b] = [[gene_a], [gene_b]]"
    by (simp add: layout_eval_defs)
  have a: "\<not> lane_overlaps [gene_a] gene_c"
    by (simp add: lane_overlaps_def intervals_overlap_def layout_eval_defs)
  have b: "lane_overlaps [gene_b] gene_c"
    by (simp add: lane_overlaps_def intervals_overlap_def layout_eval_defs)
  from organizeIntoTracks_first_fit [of "[gene_a, gene_b]" gene_c] a b
  have three: "organizeIntoTracks ([gene_a, gene_b] @ [gene_c]) = [[gene_a, gene_c], [gene_b]]"
    unfolding two by (auto simp: less_Suc_eq_0_disj)
  from organizeIntoTracks_first_fit [of "[gene_a, gene_b] @ [gene_c]" gene_c]
  have "non_overlapping [gene_a, gene_c]"
    unfolding three by simp
  with two three show ?thesis by blast
qed

subsection \<open>The redraw\<close>

lemma render_track_eq:
  "render_track fl sc w track (n, drawn) =
   (n + length (take (maxFeaturesToRender - n)
                  (filter (\<lambda>r. \<not> outside_padded_viewport fl sc w (feat r)) track)),
    drawn @ concat (map (renderFeature fl sc w)
                 (take (maxFeaturesToRender - n)
                    (filter (\<lambda>r. \<not> outside_padded_viewport fl sc w (feat r)) track))))"
proof (induction track arbitrary: n drawn)
  case Nil
  then show ?case by simp
next
  case (Cons r track)
  show ?case
  proof (cases "n \<ge> maxFeaturesToRender")
    case True
    then show ?thesis by (simp add: Cons)
  next
    case False
    then have "maxFeaturesToRender - n = Suc (maxFeaturesToRender - Suc n)" by simp
    with False show ?thesis by (simp add: Cons)
  qed
qed

lemma take_filter_append:
  "take k (xs @ ys) = take k xs @ take (k - length (take k xs)) ys"
  by (cases "length xs \<le> k") (simp_all add: min_def)

lemma render_tracks_eq:
  "render_tracks fl sc w tracks (n, drawn) =
   (n + length (take (maxFeaturesToRender - n)
                  (filter (\<lambda>r. \<not> outside_padded_viewport fl sc w (feat r)) (concat tracks))),
    drawn @ concat (map (renderFeature fl sc w)
                 (take (maxFeaturesToRender - n)
                    (filter (\<lambda>r. \<not> outside_padded_viewport fl sc w (feat r)) (concat tracks)))))"
proof (induction tracks arbitrary: n drawn)
  case Nil
  then show ?case by simp
next
  case (Cons track tracks)
  let ?P = "\<lambda>r. \<not> outside_padded_viewport fl sc w (feat r)"
  show ?case
  proof (cases "n \<ge> maxFeaturesToRender")
    case True
    then show ?thesis by (simp add: Cons)
  next
    case False
    let ?v = "take (maxFeaturesToRender - n) (filter ?P track)"
    have split: "take (maxFeaturesToRender - n) (filter ?P (concat (track # tracks)))
        = ?v @ take (maxFeaturesToRender - (n + length ?v)) (filter ?P (concat tracks))"
      using take_filter_append [of "maxFeaturesToRender - n" "filter ?P track"
          "filter ?P (concat tracks)"]
      by simp
    from False show ?thesis
      by (simp only: render_tracks.simps render_track_eq Cons split if_False
          length_append map_append concat_append append_assoc add.assoc)
  qed
qed

lemma updateFeatures_eq:
  "updateFeatures fl sc w tracks =
   (length (rendered_roots fl sc w tracks),
    concat (map (renderFeature fl sc w) (rendered_roots fl sc w tracks)))"
  by (simp add: updateFeatures_def render_tracks_eq rendered_roots_def)

lemma rendered_roots_filter:
  "rendered_roots fl sc w (map (filter (\<lambda>r. \<not> outside_padded_viewport fl sc w (feat r))) tracks)
   = rendered_roots fl sc w tracks"
  by (simp add: rendered_roots_def filter_concat comp_def)

lemma nth_in_take_filter:
  assumes "i < length xs" and "P (xs ! i)" and "length (filter P (take i xs)) < k"
  shows "xs ! i \<in> set (take k (filter P xs))"
proof -
  have "xs = take i xs @ xs ! i # drop (Suc i) xs"
    using assms(1) by (simp add: id_take_nth_drop)
  then have "filter P xs = filter P (take i xs) @ xs ! i # filter P (drop (Suc i) xs)"
    using assms(2) by (metis filter.simps(2) filter_append)
  then have "take k (filter P xs)
      = filter P (take i xs) @ take (k - length (filter P (take i xs)))
          (xs ! i # filter P (drop (Suc i) xs))"
    using assms(3) by simp
  moreover have "k - length (filter P (take i xs)) = Suc (k - Suc (length (filter P (take i xs))))"
    using assms(3) by simp
  ultimately show ?thesis by simp
qed

lemmas redraw_eval_defs =
  rendered_roots_def outside_padded_viewport_def unit_scale_def exact_ops_def span_feature_def js_def
  maxFeaturesToRender_def Let_def renderExon_def renderCDS_def renderMRNA_def blocks_def

lemma length_concat_singletons:
  "(\<And>x. x \<in> set xs \<Longrightarrow> length (f x) = 1) \<Longrightarrow> length (concat (map f xs)) = length xs"
  by (induction xs) auto

lemma gene_with_exons_redraw:
  "updateFeatures exact_ops unit_scale 100
     [[Node (span_feature ''gene'' 0 100 1)
         (map (\<lambda>n. Node (span_feature ''exon'' 10 20 n) []) ns)]]
   = (1, GenePath (span_feature ''gene'' 0 100 1) #
         map (\<lambda>n. ExonRect (span_feature ''exon'' 10 20 n)) ns)"
  by (simp add: updateFeatures_eq redraw_eval_defs comp_def)

text \<open>
  Claim C7, at an input where the code departs from it: one root gene across the window
  with 5001 exon children. The redraw counts one rendered feature and draws 5002
  primitives, more than the cap: \<open>renderedCount\<close> counts the roots handed to
  \<open>renderFeature\<close>, not what is drawn for their children.
\<close>

theorem cap_exceeded_by_children:
  "fst (updateFeatures exact_ops unit_scale 100 [[crowded_gene]]) = 1 \<and>
   maxFeaturesToRender < length (snd (updateFeatures exact_ops unit_scale 100 [[crowded_gene]]))"
proof -
  have count: "fst (updateFeatures exact_ops unit_scale 100 [[crowded_gene]]) = 1"
    unfolding crowded_gene_def gene_with_exons_redraw by (simp only: fst_conv)
  have "length (snd (updateFeatures exact_ops unit_scale 100 [[crowded_gene]])) = Suc (5003 - 2)"
    unfolding crowded_gene_def gene_with_exons_redraw
    by (simp only: snd_conv list.size length_map length_upt)
  then have "maxFeaturesToRender < length (snd (updateFeatures exact_ops unit_scale 100 [[crowded_gene]]))"
    by (simp add: maxFeaturesToRender_def)
  with count show ?thesis by blast
qed

text \<open>
  Claim C7 as the code has it: the cap bounds the root features a redraw renders. The
  roots rendered are the first \<open>maxFeaturesToRender\<close>, in track order, of those not
  outside the padded window; \<open>renderedCount\<close> is their number, at most the cap; what is
  drawn is what \<open>renderFeature\<close> draws for each of them, children included, and every
  root after them is skipped.
\<close>

theorem redraw_renders_at_most_cap_roots:
  "fst (updateFeatures fl sc width tracks) \<le> maxFeaturesToRender \<and>
   updateFeatures fl sc width tracks
     = (length (take maxFeaturesToRender
                  (filter (\<lambda>r. \<not> outside_padded_viewport fl sc width (feat r)) (concat tracks))),
        concat (map (renderFeature fl sc width)
                  (take maxFeaturesToRender
                     (filter (\<lambda>r. \<not> outside_padded_viewport fl sc width (feat r)) (concat tracks)))))"
  by (simp add: updateFeatures_eq rendered_roots_def)

text \<open>The theorem at four root genes in two tracks, one of them far outside the window.\<close>

theorem redraw_renders_at_most_cap_roots_witness:
  "updateFeatures exact_ops unit_scale 100 [[gene_a, far_gene, gene_c], [gene_b]]
   = (3, [GenePath (feat gene_a), GenePath (feat gene_c), GenePath (feat gene_b)])"
  using redraw_renders_at_most_cap_roots
    [of exact_ops unit_scale 100 "[[gene_a, far_gene, gene_c], [gene_b]]"]
  by (simp add: gene_a_def gene_b_def gene_c_def far_gene_def redraw_eval_defs)

text \<open>
  Claim C6, at inputs where the code departs from it. An exon child of a gene, far
  outside the padded window, is drawn: \<open>renderGene\<close> renders the children of a gene
  without looking at the window. An exon child of a transcript, inside the padding, is
  not drawn: \<open>renderMRNA\<close> tests its children against the window without the padding
  (and draws nothing for the transcript itself).
\<close>

theorem children_are_not_culled_like_roots:
  "outside_padded_viewport exact_ops unit_scale 100 stray_exon \<and>
   snd (updateFeatures exact_ops unit_scale 100 [[stray_gene]])
     = [GenePath (span_feature ''gene'' 0 100 1), ExonRect stray_exon] \<and>
   \<not> outside_padded_viewport exact_ops unit_scale 100 margin_exon \<and>
   snd (updateFeatures exact_ops unit_scale 100 [[margin_mRNA]]) = []"
  by (simp add: updateFeatures_eq stray_gene_def stray_exon_def margin_mRNA_def margin_exon_def
      redraw_eval_defs)

text \<open>
  Claim C6 as the code has it, for root features, whatever the scale and whatever the
  rounding of the double operations. A root outside the padded window, by the test as
  the redraw computes it, produces nothing: the redraw is the same with such roots
  removed from the tracks. A root not outside it, with fewer than
  \<open>maxFeaturesToRender\<close> such roots before it in track order, is rendered: all that
  \<open>renderFeature\<close> draws for it is drawn. And \<open>renderFeature\<close> draws the arrow of a gene,
  the block of an exon and the block of a CDS that is at least one pixel wide.
\<close>

theorem padded_viewport_culls_roots:
  "updateFeatures fl sc width
     (map (filter (\<lambda>r. \<not> outside_padded_viewport fl sc width (feat r))) tracks)
     = updateFeatures fl sc width tracks \<and>
   (\<forall>i < length (concat tracks).
      \<not> outside_padded_viewport fl sc width (feat (concat tracks ! i)) \<and>
      length (filter (\<lambda>r. \<not> outside_padded_viewport fl sc width (feat r)) (take i (concat tracks)))
        < maxFeaturesToRender \<longrightarrow>
      set (renderFeature fl sc width (concat tracks ! i))
        \<subseteq> set (snd (updateFeatures fl sc width tracks))) \<and>
   (\<not> fl_sub fl (scale_px sc (end_pos f)) (scale_px sc (start f)) < 1 \<longrightarrow>
      (ftype f = js ''gene'' \<longrightarrow> GenePath f \<in> set (renderFeature fl sc width (Node f cs))) \<and>
      (ftype f = js ''exon'' \<longrightarrow> ExonRect f \<in> set (renderFeature fl sc width (Node f cs))) \<and>
      (ftype f = js ''CDS'' \<longrightarrow> CDSRect f \<in> set (renderFeature fl sc width (Node f cs))))"
proof -
  let ?P = "\<lambda>r. \<not> outside_padded_viewport fl sc width (feat r)"
  have a: "updateFeatures fl sc width (map (filter ?P) tracks) = updateFeatures fl sc width tracks"
    by (simp only: updateFeatures_eq rendered_roots_filter)
  have b: "\<forall>i < length (concat tracks).
      ?P (concat tracks ! i) \<and> length (filter ?P (take i (concat tracks))) < maxFeaturesToRender \<longrightarrow>
      set (renderFeature fl sc width (concat tracks ! i)) \<subseteq> set (snd (updateFeatures fl sc width tracks))"
  proof (intro allI impI)
    fix i
    assume i: "i < length (concat tracks)"
      and "?P (concat tracks ! i) \<and> length (filter ?P (take i (concat tracks))) < maxFeaturesToRender"
    then have "concat tracks ! i \<in> set (rendered_roots fl sc width tracks)"
      unfolding rendered_roots_def by (intro nth_in_take_filter) simp_all
    then show "set (renderFeature fl sc width (concat tracks ! i))
        \<subseteq> set (snd (updateFeatures fl sc width tracks))"
      by (auto simp: updateFeatures_eq)
  qed
  have c: "\<not> fl_sub fl (scale_px sc (end_pos f)) (scale_px sc (start f)) < 1 \<longrightarrow>
      (ftype f = js ''gene'' \<longrightarrow> GenePath f \<in> set (renderFeature fl sc width (Node f cs))) \<and>
      (ftype f = js ''exon'' \<longrightarrow> ExonRect f \<in> set (renderFeature fl sc width (Node f cs))) \<and>
      (ftype f = js ''CDS'' \<longrightarrow> CDSRect f \<in> set (renderFeature fl sc width (Node f cs)))"
    by (simp add: renderExon_def renderCDS_def js_def)
  from a b c show ?thesis by blast
qed

text \<open>
  At the window \<open>[0, 0.9090909090909091]\<close> a root that starts at 1 is not outside the
  padded window, since the padded right bound is the double 1; with exact sums it would
  be.
\<close>

lemma rounding_decides_at_the_edge:
  "\<not> outside_padded_viewport edge_ops edge_scale 100 (span_feature ''gene'' 1 5 1) \<and>
   outside_padded_viewport exact_ops edge_scale 100 (span_feature ''gene'' 1 5 1)"
  by (simp add: outside_padded_viewport_def edge_ops_def edge_scale_def edge_view_def
      edge_padding_def exact_ops_def span_feature_def Let_def)

text \<open>The theorem at a track of a gene in the window and a gene far outside it.\<close>

theorem padded_viewport_culls_roots_witness:
  "updateFeatures exact_ops unit_scale 100 [[gene_a, far_gene]]
     = updateFeatures exact_ops unit_scale 100 [[gene_a]] \<and>
   GenePath (feat gene_a) \<in> set (snd (updateFeatures exact_ops unit_scale 100 [[gene_a, far_gene]]))"
proof -
  note inst = padded_viewport_culls_roots
    [of exact_ops unit_scale 100 "[[gene_a, far_gene]]" "feat gene_a" "kids gene_a"]
  have vis: "\<not> outside_padded_viewport exact_ops unit_scale 100 (feat gene_a)"
    by (simp add: gene_a_def redraw_eval_defs)
  have far: "outside_padded_viewport exact_ops unit_scale 100 (feat far_gene)"
    by (simp add: far_gene_def redraw_eval_defs)
  from inst vis far
  have same: "updateFeatures exact_ops unit_scale 100 [[gene_a, far_gene]]
      = updateFeatures exact_ops unit_scale 100 [[gene_a]]"
    by simp
  have wide: "\<not> fl_sub exact_ops (scale_px unit_scale (end_pos (feat gene_a)))
                 (scale_px unit_scale (start (feat gene_a))) < 1"
    by (simp add: gene_a_def redraw_eval_defs)
  have gene: "ftype (feat gene_a) = js ''gene''"
    by (simp add: gene_a_def span_feature_def)
  have node: "Node (feat gene_a) (kids gene_a) = gene_a" by simp
  from inst wide gene
  have "GenePath (feat gene_a) \<in> set (renderFeature exact_ops unit_scale 100 gene_a)"
    unfolding node by blast
  moreover
  have "set (renderFeature exact_ops unit_scale 100 gene_a)
      \<subseteq> set (snd (updateFeatures exact_ops unit_scale 100 [[gene_a, far_gene]]))"
    using inst [THEN conjunct2, THEN conjunct1, rule_format, of 0] vis
    by (simp add: maxFeaturesToRender_def)
  ultimately show ?thesis using same by blast
qed

subsection \<open>The zoom handler\<close>












end
